theory Spec2Isabelle
  imports Complex_Main
begin

section \<open>Exceptions of the modelled Python code\<close>

text \<open>
  Every \<open>raise\<close>, failed \<open>assert\<close> and failing built-in operation of the modelled
  functions is a value of this type; a function that can fail returns \<open>error + 'a\<close>.
  Python floats are modelled as the reals they denote. An \<open>InitializationError\<close>
  carries what its message reports: the degrees of freedom that were not zero, or
  that the property package failed to solve.
\<close>

datatype init_failure = DegreesOfFreedom int | SolveFailed

datatype error =
    ValueError string
  | InitializationError init_failure
  | ConfigurationError string
  | RuntimeError string
  | AssertionError
  | ZeroDivisionError
  | IndexError
  | TypeError
  | UnitsError

text \<open>Sequencing: the first exception ends the computation.\<close>

definition bind_result :: "error + 'a \<Rightarrow> ('a \<Rightarrow> error + 'b) \<Rightarrow> error + 'b" where
  "bind_result r f = (case r of Inl e \<Rightarrow> Inl e | Inr x \<Rightarrow> f x)"

section \<open>Tank volume handed to PySAM: \<open>run_pysam_kbhdp_fpc.py\<close>\<close>

text \<open>
  The PySAM \<open>SolarWaterHeating\<close> object is read and written through
  \<open>tech_model.value(name)\<close> and \<open>tech_model.value(name, v)\<close>. The record holds the
  inputs that \<open>run_pysam_fpc_model\<close> reads or writes before it assigns \<open>V_tank\<close>.
\<close>

record tech_model =
  custom_mains :: "real list"
  area_coll :: real
  FRta :: real
  FRUL :: real
  ncoll :: int
  system_capacity :: real
  T_set :: real
  V_tank :: real

definition cp_water :: real where
  "cp_water = 4181 / 1000"

definition density_water :: real where
  "density_water = 1000"

text \<open>Python's \<open>round\<close> on a float: to the nearest integer, a tie to the even one.\<close>

definition py_round :: "real \<Rightarrow> int" where
  "py_round x =
     (let f = \<lfloor>x\<rfloor>; d = x - of_int f
      in if d < 1 / 2 then f
         else if 1 / 2 < d then f + 1
         else if even f then f else f + 1)"

definition system_capacity_computed :: "tech_model \<Rightarrow> real" where
  "system_capacity_computed tm =
     area_coll tm * of_int (ncoll tm) * (FRta tm - FRUL tm * 30 / 1000)"

text \<open>
  The branch \<open>if heat_load is not None\<close>: the number of collectors is rounded from the
  heat load in kW, and the system capacity is recomputed from that number.
\<close>

definition set_heat_load :: "tech_model \<Rightarrow> real option \<Rightarrow> error + tech_model" where
  "set_heat_load tm heat_load_mwt =
     (case heat_load_mwt of
        None \<Rightarrow> Inr tm
      | Some mwt \<Rightarrow>
          (let heat_load = mwt * 1000;
               per_coll = area_coll tm * (FRta tm - FRUL tm * 30 / 1000)
           in if per_coll = 0 then Inl ZeroDivisionError
              else
                (let tm1 = tm\<lparr>ncoll := py_round (heat_load / per_coll)\<rparr>
                 in Inr (tm1\<lparr>system_capacity := system_capacity_computed tm1\<rparr>))))"

text \<open>
  \<open>run_pysam_fpc_model\<close> from its first line through the assignment of \<open>V_tank\<close>;
  what follows in the source (mass flows, pipe length, the sweep over \<open>scaled_draw\<close>
  that executes the simulator) does not write \<open>V_tank\<close> again.
\<close>

definition run_pysam_fpc_model_inputs ::
  "tech_model \<Rightarrow> real option \<Rightarrow> real option \<Rightarrow> real option \<Rightarrow> error + tech_model" where
  "run_pysam_fpc_model_inputs tm heat_load_mwt hours_storage temperature_hot =
     (case custom_mains tm of
        [] \<Rightarrow> Inl IndexError
      | T_cold # _ \<Rightarrow>
          (case set_heat_load tm heat_load_mwt of
             Inl e \<Rightarrow> Inl e
           | Inr tm1 \<Rightarrow>
               (let tm2 = (case temperature_hot of
                             None \<Rightarrow> tm1
                           | Some t \<Rightarrow> tm1\<lparr>T_set := t\<rparr>)
                in case hours_storage of
                     None \<Rightarrow> Inr tm2
                   | Some h \<Rightarrow>
                       (let h1 = max h (1 / 1000);
                            T_hot = T_set tm2
                        in if cp_water * (T_hot - T_cold) = 0 then Inl ZeroDivisionError
                           else
                             (let mass_tank_water =
                                    h1 * 3600 * system_capacity tm2
                                      / (cp_water * (T_hot - T_cold));
                                  volume_tank = mass_tank_water / density_water
                              in Inr (tm2\<lparr>V_tank := volume_tank\<rparr>))))))"

text \<open>
  The tank volume as the specification words it: the mass of tank water is
  \<open>hours_storage * 3600 * system capacity / (cp_water * (T_hot - T_cold))\<close>, and the
  volume is that mass divided by the density of water.
\<close>

definition tank_volume_spec :: "real \<Rightarrow> real \<Rightarrow> real \<Rightarrow> real \<Rightarrow> real \<Rightarrow> real \<Rightarrow> real" where
  "tank_volume_spec hours capacity_kW cp T_hot T_cold rho =
     (hours * 3600 * capacity_kW / (cp * (T_hot - T_cold))) / rho"

section \<open>Storage volume of the surrogate: \<open>flat_plate_surrogate.py\<close>\<close>

text \<open>
  The parameters and variables of \<open>FlatPlateSurrogateData.build\<close> that the storage-volume
  constraint mentions, with their units: specific heat in kJ/(kg K), density in kg/m3,
  temperatures in K, heat load in MW, storage time in h, volume in m3.
\<close>

record flat_plate_surrogate =
  specific_heat_water :: real
  dens_water :: real
  temperature_cold :: real
  heat_load :: real
  hours_storage :: real
  temperature_hot :: real
  storage_volume :: real

text \<open>
  \<open>pyunits.convert(..., to_units=m**3)\<close> of a quantity in h MW / (kJ / m3): one hour
  of one megawatt is 3600 s times 1000 kJ/s.
\<close>

definition convert_h_MW_m3_per_kJ_to_m3 :: "real \<Rightarrow> real" where
  "convert_h_MW_m3_per_kJ_to_m3 x = x * (3600 * 1000)"

definition storage_volume_expr :: "flat_plate_surrogate \<Rightarrow> real" where
  "storage_volume_expr b =
     convert_h_MW_m3_per_kJ_to_m3
       ((hours_storage b * heat_load b)
          / (specific_heat_water b * temperature_cold b * dens_water b))"

definition storage_volume_constraint :: "flat_plate_surrogate \<Rightarrow> bool" where
  "storage_volume_constraint b \<longleftrightarrow> storage_volume b = storage_volume_expr b"

text \<open>
  A concrete sweep point: 20 hours of storage, hot set point 70, mains at 20, a system of
  500 MW, with the collector parameters that the surrogate calls the defaults from SAM.
\<close>

definition kbhdp_tech_model :: tech_model where
  "kbhdp_tech_model =
     \<lparr>custom_mains = [20], area_coll = 298 / 100, FRta = 689 / 1000, FRUL = 385 / 100,
      ncoll = 2, system_capacity = 500000, T_set = 70, V_tank = 0\<rparr>"

definition kbhdp_surrogate :: flat_plate_surrogate where
  "kbhdp_surrogate =
     \<lparr>specific_heat_water = 4181 / 1000, dens_water = 1000, temperature_cold = 20,
      heat_load = 500, hours_storage = 20, temperature_hot = 70, storage_volume = 0\<rparr>"

section \<open>Aggregate costing block: \<open>build_agg_costing_blk\<close> in \<open>KBHDP_ZLD.py\<close>\<close>

text \<open>
  What \<open>build_agg_costing_blk\<close> reads from \<open>m.fs.costing\<close> of a solved constituent
  model through \<open>value(...)\<close>.
\<close>

record model_costing =
  capital_recovery_factor :: real
  electricity_cost :: real
  heat_cost :: real
  total_capital_cost :: real
  total_operating_cost :: real

text \<open>
  The aggregate block \<open>b\<close>. \<open>agg_base_period\<close> is the length of \<open>b.base_period\<close> in
  seconds (\<open>pyunits.year\<close> by default). \<open>agg_total_capital_cost\<close> and
  \<open>agg_total_operating_cost\<close> are the current values of the two \<open>Var\<close>s, which the
  source initialises to 1e6 and 1e4. The registration of flow types, the indexed
  \<open>aggregate_flow_costs\<close> and the \<open>aggregate_flow_*\<close> variables are not read by the
  \<open>LCOW\<close> expression and are left out.
\<close>

record agg_costing_blk =
  agg_models :: "model_costing list"
  agg_base_period :: real
  agg_capital_recovery_factor :: real
  agg_electricity_cost :: real
  agg_heat_cost :: real
  agg_product_flow :: real
  agg_total_capital_cost :: real
  agg_total_operating_cost :: real

definition build_agg_costing_blk ::
  "model_costing list \<Rightarrow> real \<Rightarrow> real \<Rightarrow> error + agg_costing_blk" where
  "build_agg_costing_blk models base_period product_flow =
     (case models of
        [] \<Rightarrow> Inl IndexError
      | m0 # _ \<Rightarrow>
          if list_all (\<lambda>m. capital_recovery_factor m = capital_recovery_factor m0
                          \<and> electricity_cost m = electricity_cost m0
                          \<and> heat_cost m = heat_cost m0) models
          then Inr \<lparr>agg_models = models,
                    agg_base_period = base_period,
                    agg_capital_recovery_factor = capital_recovery_factor m0,
                    agg_electricity_cost = electricity_cost m0,
                    agg_heat_cost = heat_cost m0,
                    agg_product_flow = product_flow,
                    agg_total_capital_cost = 1000000,
                    agg_total_operating_cost = 10000\<rparr>
          else Inl AssertionError)"

text \<open>The two equality constraints, \<open>sum(value(...) for m in models)\<close> on the right.\<close>

definition eq_total_capital_cost :: "agg_costing_blk \<Rightarrow> bool" where
  "eq_total_capital_cost blk \<longleftrightarrow>
     agg_total_capital_cost blk = sum_list (map total_capital_cost (agg_models blk))"

definition eq_total_operating_cost :: "agg_costing_blk \<Rightarrow> bool" where
  "eq_total_operating_cost blk \<longleftrightarrow>
     agg_total_operating_cost blk = sum_list (map total_operating_cost (agg_models blk))"

text \<open>
  The value of the \<open>LCOW\<close> expression. The denominator converts the product flow from
  m3/s to m3 per base period; the outer conversion to currency per m3 has factor 1.
  Evaluating the expression with a zero denominator raises.
\<close>

definition LCOW :: "agg_costing_blk \<Rightarrow> error + real" where
  "LCOW blk =
     (let numerator = agg_total_capital_cost blk * agg_capital_recovery_factor blk
                        + agg_total_operating_cost blk;
          denominator = agg_product_flow blk * agg_base_period blk
      in if denominator = 0 then Inl ZeroDivisionError
         else Inr (numerator / denominator))"

text \<open>Three constituent models with a common capital recovery factor.\<close>

definition example_costing :: "real \<Rightarrow> real \<Rightarrow> model_costing" where
  "example_costing capital operating =
     \<lparr>capital_recovery_factor = 1 / 10, electricity_cost = 7 / 100, heat_cost = 1 / 100,
      total_capital_cost = capital, total_operating_cost = operating\<rparr>"

definition example_models :: "model_costing list" where
  "example_models =
     [example_costing 1000 50, example_costing 2000 150, example_costing 3000 200]"

section \<open>State block of the FO draw solution: \<open>fo_draw_solution_properties.py\<close>\<close>

text \<open>
  A Pyomo variable, as far as initialization reads and writes it: its value and whether
  it is fixed.
\<close>

record pyomo_var =
  var_value :: "real option"
  var_fixed :: bool

text \<open>
  A state variable of an element block is named by its entry in \<open>define_state_vars()\<close>
  (\<open>flow_mass_phase_comp\<close>, \<open>temperature\<close>, \<open>pressure\<close>) and its index (phase and
  component, or nothing for a scalar).
\<close>

type_synonym state_var_id = "string \<times> string list"

text \<open>
  An element \<open>self[k]\<close> of the indexed state block: its state variables in the order
  of iteration, and everything else it holds (property variables and constraints built
  on demand) as \<open>properties\<close>.
\<close>

record 'e state_block_data =
  state_vars :: "(state_var_id \<times> pyomo_var) list"
  properties :: 'e

type_synonym ('k, 'e) state_block = "('k \<times> 'e state_block_data) list"

text \<open>The dictionary of flags, keyed by block index, variable name and variable index.\<close>

type_synonym 'k flags = "(('k \<times> state_var_id) \<times> bool) list"

text \<open>
  The functions \<open>initialize\<close> imports from IDAES and Pyomo, which the repository does
  not define, are parameters of the model:
  \<^item> \<open>degrees_of_freedom\<close> and \<open>number_unfixed_variables\<close> of an element;
  \<^item> \<open>solve_indexed_blocks\<close> followed by \<open>check_optimal_termination\<close>: whether the
    solve ended optimally, and the properties it leaves on each element. It is called
    when every state variable is fixed, so it writes no state variable;
  \<^item> \<open>fix_value\<close>: the value at which \<open>fix_state_vars\<close> fixes an unfixed state variable
    (the guess of \<open>state_args\<close> or the current value), or the error it raises.
\<close>

record ('k, 'e, 'a) idaes =
  degrees_of_freedom :: "'e state_block_data \<Rightarrow> int"
  number_unfixed_variables :: "'e state_block_data \<Rightarrow> nat"
  solve_indexed_blocks :: "('k, 'e) state_block \<Rightarrow> bool \<times> ('k \<Rightarrow> 'e)"
  fix_value :: "'a \<Rightarrow> state_var_id \<Rightarrow> pyomo_var \<Rightarrow> error + real option"

text \<open>
  \<open>fix_state_vars\<close> of \<open>idaes.core.util.initialization\<close>, by its contract: it records
  for every state variable whether it was fixed, fixes every one that was not, and
  returns the record.
\<close>

fun fix_vars ::
  "(state_var_id \<Rightarrow> pyomo_var \<Rightarrow> error + real option)
     \<Rightarrow> (state_var_id \<times> pyomo_var) list \<Rightarrow> error + (state_var_id \<times> pyomo_var) list" where
  "fix_vars g [] = Inr []"
| "fix_vars g ((i, v) # vs) =
     (case (if var_fixed v then Inr v
            else case g i v of
                   Inl e \<Rightarrow> Inl e
                 | Inr x \<Rightarrow> Inr (v\<lparr>var_value := x, var_fixed := True\<rparr>)) of
        Inl e \<Rightarrow> Inl e
      | Inr v1 \<Rightarrow>
          (case fix_vars g vs of
             Inl e \<Rightarrow> Inl e
           | Inr vs1 \<Rightarrow> Inr ((i, v1) # vs1)))"

definition flags_of :: "'k \<Rightarrow> (state_var_id \<times> pyomo_var) list \<Rightarrow> 'k flags" where
  "flags_of k vs = map (\<lambda>(i, v). ((k, i), var_fixed v)) vs"

fun fix_state_vars ::
  "('k, 'e, 'a) idaes \<Rightarrow> ('k, 'e) state_block \<Rightarrow> 'a
     \<Rightarrow> error + ('k flags \<times> ('k, 'e) state_block)" where
  "fix_state_vars lib [] state_args = Inr ([], [])"
| "fix_state_vars lib ((k, b) # blk) state_args =
     (case fix_vars (fix_value lib state_args) (state_vars b) of
        Inl e \<Rightarrow> Inl e
      | Inr vs \<Rightarrow>
          (case fix_state_vars lib blk state_args of
             Inl e \<Rightarrow> Inl e
           | Inr (fl, blk1) \<Rightarrow>
               Inr (flags_of k (state_vars b) @ fl, (k, b\<lparr>state_vars := vs\<rparr>) # blk1)))"

text \<open>
  \<open>revert_state_vars\<close> of the same module: it unfixes every state variable whose flag
  is false, and raises when the flags have no entry for a state variable.
\<close>

fun revert_vars ::
  "'k flags \<Rightarrow> 'k \<Rightarrow> (state_var_id \<times> pyomo_var) list
     \<Rightarrow> error + (state_var_id \<times> pyomo_var) list" where
  "revert_vars fl k [] = Inr []"
| "revert_vars fl k ((i, v) # vs) =
     (case map_of fl (k, i) of
        None \<Rightarrow>
          Inl (ConfigurationError
            ''Indexing of flags provided to revert_state_vars does not match the Block'')
      | Some was_fixed \<Rightarrow>
          (case revert_vars fl k vs of
             Inl e \<Rightarrow> Inl e
           | Inr vs1 \<Rightarrow>
               Inr ((i, if was_fixed then v else v\<lparr>var_fixed := False\<rparr>) # vs1)))"

fun revert_state_vars ::
  "('k, 'e) state_block \<Rightarrow> 'k flags \<Rightarrow> error + ('k, 'e) state_block" where
  "revert_state_vars [] fl = Inr []"
| "revert_state_vars ((k, b) # blk) fl =
     (case revert_vars fl k (state_vars b) of
        Inl e \<Rightarrow> Inl e
      | Inr vs \<Rightarrow>
          (case revert_state_vars blk fl of
             Inl e \<Rightarrow> Inl e
           | Inr blk1 \<Rightarrow> Inr ((k, b\<lparr>state_vars := vs\<rparr>) # blk1)))"

text \<open>\<open>release_state\<close>: nothing happens for \<open>flags is None\<close>.\<close>

definition release_state ::
  "('k, 'e) state_block \<Rightarrow> 'k flags option \<Rightarrow> error + ('k, 'e) state_block" where
  "release_state blk flags =
     (case flags of
        None \<Rightarrow> Inr blk
      | Some fl \<Rightarrow> revert_state_vars blk fl)"

text \<open>The degrees-of-freedom check: the first element in key order that fails it.\<close>

definition first_nonzero_dof ::
  "('k, 'e, 'a) idaes \<Rightarrow> ('k, 'e) state_block \<Rightarrow> int option" where
  "first_nonzero_dof lib blk =
     (case filter (\<lambda>d. d \<noteq> 0) (map (\<lambda>(k, b). degrees_of_freedom lib b) blk) of
        [] \<Rightarrow> None
      | d # _ \<Rightarrow> Some d)"

definition load_solution ::
  "('k \<Rightarrow> 'e) \<Rightarrow> ('k, 'e) state_block \<Rightarrow> ('k, 'e) state_block" where
  "load_solution sol blk = map (\<lambda>(k, b). (k, b\<lparr>properties := sol k\<rparr>)) blk"

text \<open>
  The solve of \<open>initialize\<close>: skipped when no element has an unfixed variable,
  otherwise \<open>solve_indexed_blocks\<close>, and an \<open>InitializationError\<close> unless it ended
  optimally.
\<close>

definition solve_properties ::
  "('k, 'e, 'a) idaes \<Rightarrow> ('k, 'e) state_block \<Rightarrow> error + ('k, 'e) state_block" where
  "solve_properties lib blk =
     (let skip_solve = list_all (\<lambda>(k, b). number_unfixed_variables lib b = 0) blk
      in if skip_solve then Inr blk
         else (case solve_indexed_blocks lib blk of
                 (optimal, sol) \<Rightarrow>
                   if optimal then Inr (load_solution sol blk)
                   else Inl (InitializationError SolveFailed)))"

text \<open>
  \<open>initialize\<close>: the value it returns (the flags, or \<open>None\<close>) together with the block
  it leaves, or the exception it raises.
\<close>

definition initialize ::
  "('k, 'e, 'a) idaes \<Rightarrow> ('k, 'e) state_block \<Rightarrow> 'a \<Rightarrow> bool \<Rightarrow> bool
     \<Rightarrow> error + ('k flags option \<times> ('k, 'e) state_block)" where
  "initialize lib blk state_args state_vars_fixed hold_state =
     (case fix_state_vars lib blk state_args of
        Inl e \<Rightarrow> Inl e
      | Inr (flags, blk1) \<Rightarrow>
          (case first_nonzero_dof lib blk1 of
             Some dof \<Rightarrow> Inl (InitializationError (DegreesOfFreedom dof))
           | None \<Rightarrow>
               (case solve_properties lib blk1 of
                  Inl e \<Rightarrow> Inl e
                | Inr blk2 \<Rightarrow>
                    if \<not> state_vars_fixed then
                      (if hold_state then Inr (Some flags, blk2)
                       else (case release_state blk2 (Some flags) of
                               Inl e \<Rightarrow> Inl e
                             | Inr blk3 \<Rightarrow> Inr (None, blk3)))
                    else Inr (None, blk2))))"

text \<open>The fixed status of every state variable of a block, in the order of iteration.\<close>

definition fixed_status :: "('k, 'e) state_block \<Rightarrow> 'k flags" where
  "fixed_status blk = concat (map (\<lambda>(k, b). flags_of k (state_vars b)) blk)"

text \<open>
  Keys of an indexed block are distinct, and so are the state variables of an element.
\<close>

definition wf_state_block :: "('k, 'e) state_block \<Rightarrow> bool" where
  "wf_state_block blk \<longleftrightarrow> distinct (map fst (fixed_status blk))"

text \<open>
  A concrete library for element blocks that hold their state variables and a number of
  unfixed property variables without an equation: every unfixed variable is a degree
  of freedom, the solver leaves the properties as they are, and an unfixed state
  variable is fixed at its current value.
\<close>

definition count_unfixed :: "(state_var_id \<times> pyomo_var) list \<Rightarrow> nat" where
  "count_unfixed vs = length (filter (\<lambda>(i, v). \<not> var_fixed v) vs)"

definition example_lib :: "(nat, nat, unit) idaes" where
  "example_lib =
     \<lparr>degrees_of_freedom = (\<lambda>b. int (count_unfixed (state_vars b) + properties b)),
      number_unfixed_variables = (\<lambda>b. count_unfixed (state_vars b) + properties b),
      solve_indexed_blocks =
        (\<lambda>blk. (True, \<lambda>k. case map_of blk k of None \<Rightarrow> 0 | Some b \<Rightarrow> properties b)),
      fix_value =
        (\<lambda>args i v. case var_value v of
                       None \<Rightarrow> Inl (ConfigurationError ''State variable has no value'')
                     | Some x \<Rightarrow> Inr (Some x))\<rparr>"

definition example_state_vars :: "bool \<Rightarrow> bool \<Rightarrow> (state_var_id \<times> pyomo_var) list" where
  "example_state_vars f1 f2 =
     [((''flow_mass_phase_comp'', [''Liq'', ''H2O'']),
         \<lparr>var_value = Some (2 / 10), var_fixed = f1\<rparr>),
      ((''flow_mass_phase_comp'', [''Liq'', ''DrawSolution'']),
         \<lparr>var_value = Some (8 / 10), var_fixed = True\<rparr>),
      ((''temperature'', []), \<lparr>var_value = Some (29815 / 100), var_fixed = f2\<rparr>),
      ((''pressure'', []), \<lparr>var_value = Some 101325, var_fixed = True\<rparr>)]"

text \<open>
  A block with one element at time 0: two of its state variables are not fixed in
  \<open>example_block\<close>, all are fixed in \<open>example_block_fixed\<close>, and \<open>example_block_dof\<close>
  has in addition one unfixed property variable without an equation.
\<close>

definition example_block :: "(nat, nat) state_block" where
  "example_block = [(0, \<lparr>state_vars = example_state_vars False False, properties = 0\<rparr>)]"

definition example_block_fixed :: "(nat, nat) state_block" where
  "example_block_fixed = [(0, \<lparr>state_vars = example_state_vars True True, properties = 0\<rparr>)]"

definition example_block_dof :: "(nat, nat) state_block" where
  "example_block_dof = [(0, \<lparr>state_vars = example_state_vars False False, properties = 1\<rparr>)]"

section \<open>The KBHDP zero-liquid-discharge train: \<open>KBHDP_ZLD.py\<close>\<close>

subsection \<open>Connections of the primary treatment\<close>

text \<open>
  The blocks of \<open>m.fs\<close> that \<open>add_primary_connections\<close> connects. A port is a block
  and the path to the port below it: \<open>m.fs.EC.product.outlet\<close> is
  \<open>(fs_EC, [''product'', ''outlet''])\<close>.
\<close>

datatype unit_model =
    fs_feed
  | fs_MCAS_to_TDS_translator
  | fs_EC
  | fs_UF
  | fs_TDS_to_NaCl_translator
  | fs_pump
  | fs_RO
  | fs_RO_brine_to_MD_translator
  | fs_product
  | fs_sludge
  | fs_UF_waste
  | fs_brine

text \<open>The blocks of the MD flowsheet and of the MEC flowsheet that their arcs connect.\<close>

datatype md_unit = mdfs_feed | mdfs_md | mdfs_product | mdfs_disposal

datatype mec_unit = mecfs_feed | mecfs_MEC | mecfs_product | mecfs_solids

type_synonym 'u port = "'u \<times> string list"

record 'u arc =
  arc_name :: string
  source :: "'u port"
  destination :: "'u port"

text \<open>The arcs that \<open>add_primary_connections\<close> adds, in the order of the source.\<close>

definition add_primary_connections :: "unit_model arc list" where
  "add_primary_connections =
     [\<lparr>arc_name = ''feed_to_translator'',
       source = (fs_feed, [''outlet'']),
       destination = (fs_MCAS_to_TDS_translator, [''inlet''])\<rparr>,
      \<lparr>arc_name = ''translator_to_EC'',
       source = (fs_MCAS_to_TDS_translator, [''outlet'']),
       destination = (fs_EC, [''feed'', ''inlet''])\<rparr>,
      \<lparr>arc_name = ''EC_to_UF'',
       source = (fs_EC, [''product'', ''outlet'']),
       destination = (fs_UF, [''feed'', ''inlet''])\<rparr>,
      \<lparr>arc_name = ''EC_to_sludge'',
       source = (fs_EC, [''disposal'', ''outlet'']),
       destination = (fs_sludge, [''inlet''])\<rparr>,
      \<lparr>arc_name = ''UF_to_translator3'',
       source = (fs_UF, [''product'', ''outlet'']),
       destination = (fs_TDS_to_NaCl_translator, [''inlet''])\<rparr>,
      \<lparr>arc_name = ''UF_to_waste'',
       source = (fs_UF, [''disposal'', ''outlet'']),
       destination = (fs_UF_waste, [''inlet''])\<rparr>,
      \<lparr>arc_name = ''translator_to_pump'',
       source = (fs_TDS_to_NaCl_translator, [''outlet'']),
       destination = (fs_pump, [''inlet''])\<rparr>,
      \<lparr>arc_name = ''pump_to_ro'',
       source = (fs_pump, [''outlet'']),
       destination = (fs_RO, [''feed'', ''inlet''])\<rparr>,
      \<lparr>arc_name = ''ro_to_product'',
       source = (fs_RO, [''product'', ''outlet'']),
       destination = (fs_product, [''inlet''])\<rparr>,
      \<lparr>arc_name = ''ro_to_brine_translator'',
       source = (fs_RO, [''disposal'', ''outlet'']),
       destination = (fs_RO_brine_to_MD_translator, [''inlet''])\<rparr>,
      \<lparr>arc_name = ''brine_translator_to_brine'',
       source = (fs_RO_brine_to_MD_translator, [''outlet'']),
       destination = (fs_brine, [''inlet''])\<rparr>]"

text \<open>The arcs that \<open>build_md_system\<close> and \<open>build_mec_system\<close> add to their flowsheets.\<close>

definition build_md_system_arcs :: "md_unit arc list" where
  "build_md_system_arcs =
     [\<lparr>arc_name = ''feed_to_md'',
       source = (mdfs_feed, [''outlet'']),
       destination = (mdfs_md, [''feed'', ''inlet''])\<rparr>,
      \<lparr>arc_name = ''md_to_product'',
       source = (mdfs_md, [''permeate'', ''outlet'']),
       destination = (mdfs_product, [''inlet''])\<rparr>,
      \<lparr>arc_name = ''md_to_disposal'',
       source = (mdfs_md, [''concentrate'', ''outlet'']),
       destination = (mdfs_disposal, [''inlet''])\<rparr>]"

definition build_mec_system_arcs :: "mec_unit arc list" where
  "build_mec_system_arcs =
     [\<lparr>arc_name = ''feed_to_unit'',
       source = (mecfs_feed, [''outlet'']),
       destination = (mecfs_MEC, [''unit'', ''inlet''])\<rparr>,
      \<lparr>arc_name = ''mec_to_product'',
       source = (mecfs_MEC, [''product'', ''outlet'']),
       destination = (mecfs_product, [''inlet''])\<rparr>,
      \<lparr>arc_name = ''mec_to_solids'',
       source = (mecfs_MEC, [''solids'', ''outlet'']),
       destination = (mecfs_solids, [''inlet''])\<rparr>]"

text \<open>
  Reading the arcs as a graph: the arcs that end at a block, the arcs that leave a
  port, and a chain of blocks each connected to the next by an arc.
\<close>

definition arcs_into :: "'u arc list \<Rightarrow> 'u \<Rightarrow> 'u arc list" where
  "arcs_into arcs u = filter (\<lambda>a. fst (destination a) = u) arcs"

definition arcs_out_of :: "'u arc list \<Rightarrow> 'u port \<Rightarrow> 'u arc list" where
  "arcs_out_of arcs p = filter (\<lambda>a. source a = p) arcs"

definition connected :: "'u arc list \<Rightarrow> 'u \<Rightarrow> 'u \<Rightarrow> bool" where
  "connected arcs u v \<longleftrightarrow>
     list_ex (\<lambda>a. fst (source a) = u \<and> fst (destination a) = v) arcs"

fun stream_path :: "'u arc list \<Rightarrow> 'u list \<Rightarrow> bool" where
  "stream_path arcs [] = True"
| "stream_path arcs [u] = True"
| "stream_path arcs (u # v # us) = (connected arcs u v \<and> stream_path arcs (v # us))"

subsection \<open>The three flowsheets and what passes between them\<close>

text \<open>
  The properties of a stream that the driver reads with \<open>value(...)\<close>: the volumetric
  flow of the liquid phase in m3/s, the mass concentration of TDS in kg/m3, and the
  mass flows of water and of TDS in kg/s.
\<close>

record stream =
  flow_vol_phase_Liq :: real
  conc_mass_phase_comp_TDS :: real
  flow_mass_phase_comp_H2O :: real
  flow_mass_phase_comp_TDS :: real

text \<open>
  One million US gallons per day in m3/s (a gallon is 3.785411784 litres), and the
  expression \<open>flow_mgd\<close> that converts a volumetric flow to that unit. A concentration
  in g/L is the same number in kg/m3.
\<close>

definition Mgallons_per_day :: real where
  "Mgallons_per_day = (3785411784 / 1000000) / 86400"

definition flow_mgd :: "stream \<Rightarrow> real" where
  "flow_mgd s = flow_vol_phase_Liq s / Mgallons_per_day"

text \<open>The \<open>var_args\<close> of \<open>calculate_state\<close> on the feed of the MD flowsheet.\<close>

record md_var_args =
  va_flow_vol_phase_Liq :: real
  va_conc_mass_phase_comp_TDS :: real
  va_temperature :: real
  va_pressure :: real

text \<open>The values at which \<open>set_mec_operating_conditions\<close> fixes the feed of the MEC flowsheet.\<close>

record mec_feed =
  mf_flow_mass_Liq_H2O :: real
  mf_flow_mass_Liq_NaCl :: real
  mf_flow_mass_Sol_NaCl :: real
  mf_temperature :: real
  mf_pressure :: real

text \<open>
  The unit models, costing packages, initialization routines and the solver come from
  WaterTAP, IDAES and Pyomo and from component files of the case study that the
  driver imports. They are parameters: \<open>'p\<close> is a solved primary model, \<open>'x\<close> the blocks
  of an MD flowsheet, \<open>'y\<close> the blocks of an MEC flowsheet. A solver returns whether it
  terminated optimally and the model with the solution loaded.
\<close>

record ('kw, 'p, 'x, 'y) watertap =
  build_and_run_primary_treatment :: "'kw \<Rightarrow> error + 'p"
  primary_brine :: "'p \<Rightarrow> stream"
  primary_product_flow :: "'p \<Rightarrow> real"
  primary_costing :: "'p \<Rightarrow> model_costing"
  build_md :: "real \<Rightarrow> real \<Rightarrow> real \<Rightarrow> error + 'x"
  md_feed_temp :: "'x \<Rightarrow> real"
  md_calculate_state :: "md_var_args \<Rightarrow> 'x \<Rightarrow> error + 'x"
  init_md :: "'x \<Rightarrow> error + 'x"
  md_solver :: "'x \<Rightarrow> bool \<times> 'x"
  md_add_costing :: "'x \<Rightarrow> error + 'x"
  md_degrees_of_freedom :: "'x \<Rightarrow> int"
  md_disposal :: "'x \<Rightarrow> stream"
  md_product_flow :: "'x \<Rightarrow> real"
  md_costing :: "'x \<Rightarrow> model_costing"
  build_mec :: "nat \<Rightarrow> error + 'y"
  mec_fix_feed :: "mec_feed \<Rightarrow> 'y \<Rightarrow> 'y"
  init_mec :: "'y \<Rightarrow> error + 'y"
  mec_solver :: "'y \<Rightarrow> bool \<times> 'y"
  mec_product_flow :: "'y \<Rightarrow> real"
  mec_costing :: "'y \<Rightarrow> model_costing"

text \<open>
  \<open>solve\<close>: the model with the solution when the solver terminated optimally, otherwise
  a \<open>RuntimeError\<close>, or the failed \<open>assert False\<close> when \<open>raise_on_failure\<close> is false.
\<close>

definition solve :: "('m \<Rightarrow> bool \<times> 'm) \<Rightarrow> 'm \<Rightarrow> bool \<Rightarrow> error + 'm" where
  "solve solver m raise_on_failure =
     (case solver m of
        (optimal, m1) \<Rightarrow>
          if optimal then Inr m1
          else if raise_on_failure then
            Inl (RuntimeError
              ''The current configuration is infeasible. Please adjust the decision variables.'')
          else Inl AssertionError)"

subsection \<open>The MD system\<close>

record 'x md_model =
  inlet_flow_rate :: real
  inlet_salinity :: real
  md_water_recovery :: real
  md_fs :: 'x

definition build_md_system ::
  "('kw, 'p, 'x, 'y) watertap \<Rightarrow> real \<Rightarrow> real \<Rightarrow> real \<Rightarrow> error + 'x md_model" where
  "build_md_system env Qin Cin water_recovery =
     (let inlet_flow = Qin * Mgallons_per_day;
          inlet_sal = Cin
      in bind_result (build_md env inlet_flow inlet_sal water_recovery)
           (\<lambda>fs. Inr \<lparr>inlet_flow_rate = inlet_flow, inlet_salinity = inlet_sal,
                      md_water_recovery = water_recovery, md_fs = fs\<rparr>))"

definition md_feed_var_args :: "('kw, 'p, 'x, 'y) watertap \<Rightarrow> 'x md_model \<Rightarrow> md_var_args" where
  "md_feed_var_args env m =
     \<lparr>va_flow_vol_phase_Liq = inlet_flow_rate m,
      va_conc_mass_phase_comp_TDS = inlet_salinity m,
      va_temperature = md_feed_temp env (md_fs m) + 27315 / 100,
      va_pressure = 101325\<rparr>"

definition set_md_operating_conditions ::
  "('kw, 'p, 'x, 'y) watertap \<Rightarrow> 'x md_model \<Rightarrow> error + 'x md_model" where
  "set_md_operating_conditions env m =
     bind_result (md_calculate_state env (md_feed_var_args env m) (md_fs m))
       (\<lambda>fs. Inr (m\<lparr>md_fs := fs\<rparr>))"

definition init_md_system ::
  "('kw, 'p, 'x, 'y) watertap \<Rightarrow> 'x md_model \<Rightarrow> error + 'x md_model" where
  "init_md_system env m =
     bind_result (init_md env (md_fs m)) (\<lambda>fs. Inr (m\<lparr>md_fs := fs\<rparr>))"

text \<open>
  \<open>build_and_run_md_system\<close> up to the line before \<open>assert degrees_of_freedom(m) == 0\<close>:
  build, operating conditions, initialization, a first solve, and the costing.
\<close>

definition md_before_final_solve ::
  "('kw, 'p, 'x, 'y) watertap \<Rightarrow> real \<Rightarrow> real \<Rightarrow> real \<Rightarrow> error + 'x md_model" where
  "md_before_final_solve env Qin Cin water_recovery =
     bind_result (build_md_system env Qin Cin water_recovery) (\<lambda>m.
     bind_result (set_md_operating_conditions env m) (\<lambda>m.
     bind_result (init_md_system env m) (\<lambda>m.
     bind_result (solve (md_solver env) (md_fs m) True) (\<lambda>fs.
     bind_result (md_add_costing env fs) (\<lambda>fs.
     Inr (m\<lparr>md_fs := fs\<rparr>))))))"

definition build_and_run_md_system ::
  "('kw, 'p, 'x, 'y) watertap \<Rightarrow> real \<Rightarrow> real \<Rightarrow> real \<Rightarrow> error + 'x md_model" where
  "build_and_run_md_system env Qin Cin water_recovery =
     bind_result (md_before_final_solve env Qin Cin water_recovery) (\<lambda>m.
       if md_degrees_of_freedom env (md_fs m) = 0
       then bind_result (solve (md_solver env) (md_fs m) True)
              (\<lambda>fs. Inr (m\<lparr>md_fs := fs\<rparr>))
       else Inl AssertionError)"

subsection \<open>The MEC system\<close>

record 'y mec_model =
  flow_mass_water :: real
  flow_mass_tds :: real
  mec_fs :: 'y

text \<open>The keyword arguments that the driver passes on as \<open>mec_kwargs\<close>.\<close>

record mec_kwargs =
  kw_flow_mass_water :: "real option"
  kw_flow_mass_tds :: "real option"

text \<open>
  \<open>set_mec_operating_conditions\<close>. Without \<open>flow_mass_water\<close> the water flow is
  computed from \<open>Qin\<close> at 1000 kg/m3, and without \<open>flow_mass_tds\<close> the TDS flow from
  \<open>Qin\<close> and \<open>tds\<close>; arithmetic on \<open>None\<close> raises, and so does the conversion of
  \<open>Qin * tds\<close> to kg/s when \<open>Qin\<close> is still the plain number.
\<close>

definition set_mec_operating_conditions ::
  "('kw, 'p, 'x, 'y) watertap \<Rightarrow> 'y \<Rightarrow> real option \<Rightarrow> real option \<Rightarrow> mec_kwargs
     \<Rightarrow> error + 'y mec_model" where
  "set_mec_operating_conditions env fs Qin tds kwargs =
     bind_result
       (case kw_flow_mass_water kwargs of
          Some w \<Rightarrow> Inr w
        | None \<Rightarrow>
            (case Qin of
               None \<Rightarrow> Inl TypeError
             | Some q \<Rightarrow> Inr (q * Mgallons_per_day * 1000)))
       (\<lambda>water.
     bind_result
       (case kw_flow_mass_tds kwargs of
          Some t \<Rightarrow> Inr t
        | None \<Rightarrow>
            (case tds of
               None \<Rightarrow> Inl TypeError
             | Some c \<Rightarrow>
                 (case Qin of
                    None \<Rightarrow> Inl TypeError
                  | Some q \<Rightarrow>
                      (case kw_flow_mass_water kwargs of
                         None \<Rightarrow> Inr (q * Mgallons_per_day * c)
                       | Some w \<Rightarrow> Inl UnitsError))))
       (\<lambda>salt.
     Inr \<lparr>flow_mass_water = water, flow_mass_tds = salt,
          mec_fs = mec_fix_feed env
                     \<lparr>mf_flow_mass_Liq_H2O = water, mf_flow_mass_Liq_NaCl = salt,
                      mf_flow_mass_Sol_NaCl = 0, mf_temperature = 29815 / 100,
                      mf_pressure = 101325\<rparr> fs\<rparr>))"

definition build_and_run_mec_system ::
  "('kw, 'p, 'x, 'y) watertap \<Rightarrow> real option \<Rightarrow> real option \<Rightarrow> nat \<Rightarrow> mec_kwargs
     \<Rightarrow> error + 'y mec_model" where
  "build_and_run_mec_system env Qin Cin number_effects kwargs =
     bind_result (build_mec env number_effects) (\<lambda>fs.
     bind_result (set_mec_operating_conditions env fs Qin Cin kwargs) (\<lambda>m.
     bind_result (init_mec env (mec_fs m)) (\<lambda>fs.
     bind_result (solve (mec_solver env) fs True) (\<lambda>fs.
     Inr (m\<lparr>mec_fs := fs\<rparr>)))))"

subsection \<open>The full train\<close>

text \<open>
  \<open>build_agg_model\<close>: the aggregate costing block over the three models, with the sum
  of their product flows as product flow and a year as base period.
\<close>

definition year_seconds :: real where
  "year_seconds = 31557600"

definition build_agg_model ::
  "('kw, 'p, 'x, 'y) watertap \<Rightarrow> 'p \<Rightarrow> 'x md_model \<Rightarrow> 'y mec_model
     \<Rightarrow> error + agg_costing_blk" where
  "build_agg_model env m1 m_md m_mec =
     build_agg_costing_blk
       [primary_costing env m1, md_costing env (md_fs m_md), mec_costing env (mec_fs m_mec)]
       year_seconds
       (sum_list [primary_product_flow env m1, md_product_flow env (md_fs m_md),
                  mec_product_flow env (mec_fs m_mec)])"

text \<open>
  \<open>build_and_run_kbhdp_zld\<close>. The solve of the aggregate model that follows
  \<open>build_agg_model\<close> is not checked by the source and does not change what is returned.
\<close>

definition build_and_run_kbhdp_zld ::
  "('kw, 'p, 'x, 'y) watertap \<Rightarrow> 'kw \<Rightarrow> error + ('p \<times> 'x md_model \<times> 'y mec_model)" where
  "build_and_run_kbhdp_zld env primary_kwargs =
     bind_result (build_and_run_primary_treatment env primary_kwargs) (\<lambda>m1.
       let flow_to_md = flow_mgd (primary_brine env m1);
           tds_to_md = conc_mass_phase_comp_TDS (primary_brine env m1)
       in
     bind_result (build_and_run_md_system env flow_to_md tds_to_md (1 / 2)) (\<lambda>m_md.
       let kwargs =
             \<lparr>kw_flow_mass_water =
                Some (flow_mass_phase_comp_H2O (md_disposal env (md_fs m_md))),
              kw_flow_mass_tds =
                Some (flow_mass_phase_comp_TDS (md_disposal env (md_fs m_md)))\<rparr>
       in
     bind_result (build_and_run_mec_system env None None 4 kwargs) (\<lambda>m_mec.
     bind_result (build_agg_model env m1 m_md m_mec) (\<lambda>m_agg.
     Inr (m1, m_md, m_mec)))))"

subsection \<open>A concrete plant\<close>

text \<open>
  A stand-in for the external machinery, for evaluating the driver: the primary model
  is its brine, an MD flowsheet is the state of its feed, and an MEC flowsheet is the
  feed that was fixed on it. The MD unit recovers half of the water, every solve
  terminates optimally, and the MD flowsheet reports \<open>dof\<close> degrees of freedom.
\<close>

definition example_brine :: stream where
  "example_brine =
     \<lparr>flow_vol_phase_Liq = 1 / 20, conc_mass_phase_comp_TDS = 50,
      flow_mass_phase_comp_H2O = 50, flow_mass_phase_comp_TDS = 5 / 2\<rparr>"

definition example_plant :: "int \<Rightarrow> (unit, stream, stream, mec_feed option) watertap" where
  "example_plant dof =
     \<lparr>build_and_run_primary_treatment = (\<lambda>kw. Inr example_brine),
      primary_brine = (\<lambda>p. p),
      primary_product_flow = (\<lambda>p. 4 * flow_vol_phase_Liq p),
      primary_costing = (\<lambda>p. example_costing 1000 50),
      build_md = (\<lambda>q c r.
        Inr \<lparr>flow_vol_phase_Liq = q, conc_mass_phase_comp_TDS = c,
             flow_mass_phase_comp_H2O = 0, flow_mass_phase_comp_TDS = 0\<rparr>),
      md_feed_temp = (\<lambda>x. 25),
      md_calculate_state = (\<lambda>va x.
        Inr \<lparr>flow_vol_phase_Liq = va_flow_vol_phase_Liq va,
             conc_mass_phase_comp_TDS = va_conc_mass_phase_comp_TDS va,
             flow_mass_phase_comp_H2O = 1000 * va_flow_vol_phase_Liq va,
             flow_mass_phase_comp_TDS =
               va_flow_vol_phase_Liq va * va_conc_mass_phase_comp_TDS va\<rparr>),
      init_md = (\<lambda>x. Inr x),
      md_solver = (\<lambda>x. (True, x)),
      md_add_costing = (\<lambda>x. Inr x),
      md_degrees_of_freedom = (\<lambda>x. dof),
      md_disposal = (\<lambda>x.
        \<lparr>flow_vol_phase_Liq = flow_vol_phase_Liq x / 2,
         conc_mass_phase_comp_TDS = 2 * conc_mass_phase_comp_TDS x,
         flow_mass_phase_comp_H2O = flow_mass_phase_comp_H2O x / 2,
         flow_mass_phase_comp_TDS = flow_mass_phase_comp_TDS x\<rparr>),
      md_product_flow = (\<lambda>x. flow_vol_phase_Liq x / 2),
      md_costing = (\<lambda>x. example_costing 2000 150),
      build_mec = (\<lambda>n. Inr None),
      mec_fix_feed = (\<lambda>f y. Some f),
      init_mec = (\<lambda>y. Inr y),
      mec_solver = (\<lambda>y. (True, y)),
      mec_product_flow = (\<lambda>y. 1 / 50),
      mec_costing = (\<lambda>y. example_costing 3000 200)\<rparr>"

text \<open>What the driver returns for the concrete plant: the MD and the MEC model.\<close>

definition example_md_model :: "stream md_model" where
  "example_md_model =
     \<lparr>inlet_flow_rate = 1 / 20, inlet_salinity = 50, md_water_recovery = 1 / 2,
      md_fs = \<lparr>flow_vol_phase_Liq = 1 / 20, conc_mass_phase_comp_TDS = 50,
               flow_mass_phase_comp_H2O = 50, flow_mass_phase_comp_TDS = 5 / 2\<rparr>\<rparr>"

definition example_mec_model :: "mec_feed option mec_model" where
  "example_mec_model =
     \<lparr>flow_mass_water = 25, flow_mass_tds = 5 / 2,
      mec_fs = Some \<lparr>mf_flow_mass_Liq_H2O = 25, mf_flow_mass_Liq_NaCl = 5 / 2,
                     mf_flow_mass_Sol_NaCl = 0, mf_temperature = 29815 / 100,
                     mf_pressure = 101325\<rparr>\<rparr>"


section \<open>System costing: presence of the blocks and consistency of shared parameters\<close>

text \<open>
  Modelled from the spec: the values of costing parameters. \<open>REFLOSystemCosting\<close>,
  \<open>TreatmentCosting\<close> and \<open>EnergyCosting\<close> of \<open>watertap_contrib.reflo.costing\<close> are
  not among the source files; of that package only the test module
  \<open>test_reflo_watertap_costing_package.py\<close> is. A parameter is a number (the value of
  a \<open>Var\<close> or \<open>Param\<close>, such as \<open>electricity_cost\<close>) or a unit object (such as
  \<open>base_currency\<close> and \<open>base_period\<close>), named here by its name in \<open>pyunits\<close>.
\<close>

datatype param_value = Number real | Unit_of string

text \<open>
  Modelled from the spec: a treatment or energy costing block, as the value of each of
  its parameters by name (the costing package itself is missing from the sources).
\<close>

type_synonym costing_params = "string \<Rightarrow> param_value"

text \<open>
  Modelled from the spec: the flowsheet on which \<open>REFLOSystemCosting\<close> is constructed,
  which may or may not hold a \<open>TreatmentCosting\<close> and an \<open>EnergyCosting\<close> block (the
  flowsheet search of the missing package is not modelled further).
\<close>

record costing_flowsheet =
  treatment_costing :: "costing_params option"
  energy_costing :: "costing_params option"

text \<open>
  Modelled from the spec: the system costing block of the missing package, as the
  shared parameters it holds and whether \<open>cost_process\<close> has run.
\<close>

record system_costing =
  sys_params :: "string \<rightharpoonup> param_value"
  sys_processed :: bool

text \<open>
  Modelled from the spec: the messages of the missing package's \<open>ValueError\<close>s, as the
  tests \<open>test_no_energy_treatment_block\<close> and \<open>test_common_params_equivalent\<close> match
  them; the message for a missing treatment block is worded like the one for a missing
  energy block.
\<close>

definition missing_block_message :: "string \<Rightarrow> string" where
  "missing_block_message block =
     ''REFLOSystemCosting package requires a '' @ block
       @ '' block but one was not found.''"

definition common_param_message :: "string \<Rightarrow> string" where
  "common_param_message cp =
     ''The common costing parameter '' @ cp
       @ '' was found to have a different value on the energy and treatment costing blocks. ''
       @ ''Common costing parameters must be equivalent across all costing blocks ''
       @ ''to use REFLOSystemCosting.''"

text \<open>
  Modelled from the spec: the consistency check of the missing package, which the spec
  words as enforcing consistency of shared economic parameters. The shared parameters
  are compared in order, and the first one that differs between the treatment and the
  energy block is reported.
\<close>

fun check_common_params ::
  "string list \<Rightarrow> costing_params \<Rightarrow> costing_params \<Rightarrow> error + unit" where
  "check_common_params [] t e = Inr ()"
| "check_common_params (cp # cps) t e =
     (if t cp = e cp then check_common_params cps t e
      else Inl (ValueError (common_param_message cp)))"

text \<open>
  Modelled from the spec: the construction of \<open>REFLOSystemCosting\<close> (missing from the
  sources). It needs a treatment and an energy costing block, enforces the consistency
  of the shared parameters \<open>common\<close>, and holds each of them with the value found on
  both blocks. Which parameters are shared is left open by the spec; the tests name
  \<open>electricity_cost\<close> and \<open>base_currency\<close>. The order of the two presence checks is
  not fixed by the spec or the tests.
\<close>

definition REFLOSystemCosting ::
  "string list \<Rightarrow> costing_flowsheet \<Rightarrow> error + system_costing" where
  "REFLOSystemCosting common fs =
     (case treatment_costing fs of
        None \<Rightarrow> Inl (ValueError (missing_block_message ''TreatmentCosting''))
      | Some t \<Rightarrow>
          (case energy_costing fs of
             None \<Rightarrow> Inl (ValueError (missing_block_message ''EnergyCosting''))
           | Some e \<Rightarrow>
               bind_result (check_common_params common t e)
                 (\<lambda>u. Inr \<lparr>sys_params = (\<lambda>cp. if cp \<in> set common then Some (t cp) else None),
                            sys_processed = False\<rparr>)))"

text \<open>
  Modelled from the spec: \<open>cost_process\<close> of the missing system costing block, which
  builds the aggregates and leaves the shared parameters as they are.
\<close>

definition cost_process :: "system_costing \<Rightarrow> system_costing" where
  "cost_process sys = sys\<lparr>sys_processed := True\<rparr>"

text \<open>
  The blocks of \<open>build_default\<close> in the test module, as far as the tests read them: the
  default electricity cost is zero, the base currency \<open>USD_2021\<close> and the base period a
  year; \<open>fix_param\<close> is \<open>.fix(v)\<close> on a parameter or the assignment of a unit.
\<close>

definition default_costing :: costing_params where
  "default_costing cp =
     (if cp = ''base_currency'' then Unit_of ''USD_2021''
      else if cp = ''base_period'' then Unit_of ''year''
      else Number 0)"

definition fix_param :: "costing_params \<Rightarrow> string \<Rightarrow> param_value \<Rightarrow> costing_params" where
  "fix_param c cp v = c(cp := v)"

definition test_common_params :: "string list" where
  "test_common_params = [''electricity_cost'', ''base_currency'', ''base_period'']"

section \<open>Properties of the tank volume\<close>

lemma run_pysam_fpc_model_inputs_V_tank:
  assumes "custom_mains tm = T_cold # rest"
    and "T_set tm \<noteq> T_cold"
    and "1 / 1000 \<le> h"
  shows "run_pysam_fpc_model_inputs tm None (Some h) None =
           Inr (tm\<lparr>V_tank := tank_volume_spec h (system_capacity tm) cp_water
                                 (T_set tm) T_cold density_water\<rparr>)"
  using assms
  by (simp add: run_pysam_fpc_model_inputs_def set_heat_load_def tank_volume_spec_def
      cp_water_def max_def)

text \<open>
  With nonzero data, the surrogate's expression agrees with the worded tank volume only
  when the hot temperature is twice the cold one: it divides by the cold temperature
  where the simulator input divides by the temperature difference.
\<close>

lemma storage_volume_expr_eq_spec_iff:
  assumes "specific_heat_water b \<noteq> 0" and "dens_water b \<noteq> 0"
    and "temperature_cold b \<noteq> 0" and "temperature_hot b \<noteq> temperature_cold b"
    and "hours_storage b \<noteq> 0" and "heat_load b \<noteq> 0"
  shows "storage_volume_expr b =
           tank_volume_spec (hours_storage b) (heat_load b * 1000) (specific_heat_water b)
             (temperature_hot b) (temperature_cold b) (dens_water b)
         \<longleftrightarrow> temperature_hot b - temperature_cold b = temperature_cold b"
  using assms
  by (auto simp: storage_volume_expr_def tank_volume_spec_def
      convert_h_MW_m3_per_kJ_to_m3_def field_simps)

lemma py_round_collectors:
  "py_round (500000 / (298 / 100 * (689 / 1000 - 385 / 100 * 30 / 1000))) = 292564"
  by (simp add: py_round_def Let_def)

text \<open>
  Claim C8 (storage volume of the surrogate against the tank volume given to PySAM).
  At 20 hours of storage, 500 MW, specific heat 4.181, density 1000, hot temperature 70
  and cold temperature 20, \<open>run_pysam_fpc_model\<close> assigns \<open>V_tank\<close> the worded volume
  720000000/4181 (about 172207 m3), while the surrogate's constraint fixes
  \<open>storage_volume\<close> at 1800000000/4181 (about 430519 m3). The two do not agree. With
  the surrogate's own default for the cold temperature, 293, its storage volume is
  36000000000/1225033 (about 29387 m3).
\<close>

theorem storage_volume_differs_from_V_tank:
  "run_pysam_fpc_model_inputs kbhdp_tech_model None (Some 20) (Some 70)
     = Inr (kbhdp_tech_model\<lparr>V_tank := 720000000 / 4181\<rparr>)
   \<and> tank_volume_spec 20 500000 (4181 / 1000) 70 20 1000 = 720000000 / 4181
   \<and> storage_volume_expr kbhdp_surrogate = 1800000000 / 4181
   \<and> storage_volume_constraint (kbhdp_surrogate\<lparr>storage_volume := 1800000000 / 4181\<rparr>)
   \<and> \<not> storage_volume_constraint (kbhdp_surrogate\<lparr>storage_volume := 720000000 / 4181\<rparr>)
   \<and> storage_volume_expr (kbhdp_surrogate\<lparr>temperature_cold := 293\<rparr>)
       = 36000000000 / 1225033"
  by (simp add: run_pysam_fpc_model_inputs_def set_heat_load_def kbhdp_tech_model_def
      cp_water_def density_water_def tank_volume_spec_def storage_volume_constraint_def
      storage_volume_expr_def kbhdp_surrogate_def convert_h_MW_m3_per_kJ_to_m3_def)

section \<open>Properties of the aggregate costing block\<close>

text \<open>
  Claim C6 (levelized cost of water of the aggregate block). When
  \<open>build_agg_costing_blk\<close> returns a block, its capital recovery factor is that of the
  first model, and the value of its \<open>LCOW\<close> expression is
  (total capital cost times capital recovery factor plus total operating cost) divided
  by the product flow per base period; evaluating it raises when that flow is zero.
  Whenever the two cost variables satisfy their constraints they are the sums of the
  models' total capital and total operating costs, and \<open>LCOW\<close> is the same quotient of
  those sums.
\<close>

theorem agg_LCOW:
  assumes "build_agg_costing_blk models base_period product_flow = Inr b"
  shows "agg_capital_recovery_factor b = capital_recovery_factor (hd models)
       \<and> LCOW b =
           (if product_flow * base_period = 0 then Inl ZeroDivisionError
            else Inr ((agg_total_capital_cost b * agg_capital_recovery_factor b
                        + agg_total_operating_cost b) / (product_flow * base_period)))
       \<and> (\<forall>tcc toc.
             eq_total_capital_cost
               (b\<lparr>agg_total_capital_cost := tcc, agg_total_operating_cost := toc\<rparr>)
           \<and> eq_total_operating_cost
               (b\<lparr>agg_total_capital_cost := tcc, agg_total_operating_cost := toc\<rparr>)
           \<longrightarrow> tcc = sum_list (map total_capital_cost models)
             \<and> toc = sum_list (map total_operating_cost models)
             \<and> LCOW (b\<lparr>agg_total_capital_cost := tcc, agg_total_operating_cost := toc\<rparr>) =
                 (if product_flow * base_period = 0 then Inl ZeroDivisionError
                  else Inr ((sum_list (map total_capital_cost models)
                               * agg_capital_recovery_factor b
                             + sum_list (map total_operating_cost models))
                            / (product_flow * base_period))))"
  using assms
  by (auto simp: build_agg_costing_blk_def LCOW_def eq_total_capital_cost_def
      eq_total_operating_cost_def Let_def split: list.splits if_splits)

theorem agg_LCOW_witness:
  "\<exists>b. build_agg_costing_blk example_models year_seconds (1 / 10) = Inr b
     \<and> eq_total_capital_cost
         (b\<lparr>agg_total_capital_cost := 6000, agg_total_operating_cost := 400\<rparr>)
     \<and> eq_total_operating_cost
         (b\<lparr>agg_total_capital_cost := 6000, agg_total_operating_cost := 400\<rparr>)
     \<and> LCOW (b\<lparr>agg_total_capital_cost := 6000, agg_total_operating_cost := 400\<rparr>)
         = Inr (1000 / 3155760)"
proof -
  define b where "b =
    \<lparr>agg_models = example_models, agg_base_period = year_seconds,
     agg_capital_recovery_factor = 1 / 10, agg_electricity_cost = 7 / 100,
     agg_heat_cost = 1 / 100, agg_product_flow = 1 / 10,
     agg_total_capital_cost = 1000000, agg_total_operating_cost = 10000\<rparr>"
  have built: "build_agg_costing_blk example_models year_seconds (1 / 10) = Inr b"
    by (simp add: build_agg_costing_blk_def example_models_def example_costing_def b_def)
  have sat: "eq_total_capital_cost
               (b\<lparr>agg_total_capital_cost := 6000, agg_total_operating_cost := 400\<rparr>)
           \<and> eq_total_operating_cost
               (b\<lparr>agg_total_capital_cost := 6000, agg_total_operating_cost := 400\<rparr>)"
    by (simp add: eq_total_capital_cost_def eq_total_operating_cost_def b_def
        example_models_def example_costing_def)
  from agg_LCOW [OF built] sat
  have "LCOW (b\<lparr>agg_total_capital_cost := 6000, agg_total_operating_cost := 400\<rparr>) =
          (if 1 / 10 * year_seconds = 0 then Inl ZeroDivisionError
           else Inr ((sum_list (map total_capital_cost example_models)
                        * agg_capital_recovery_factor b
                      + sum_list (map total_operating_cost example_models))
                     / (1 / 10 * year_seconds)))"
    by blast
  then have "LCOW (b\<lparr>agg_total_capital_cost := 6000, agg_total_operating_cost := 400\<rparr>)
               = Inr (1000 / 3155760)"
    by (simp add: year_seconds_def example_models_def example_costing_def b_def)
  with built sat show ?thesis by blast
qed

section \<open>Properties of the state block\<close>

lemma fix_vars_result:
  "fix_vars g vs = Inr vs1 \<Longrightarrow>
     map fst vs1 = map fst vs \<and> list_all (\<lambda>(i, v). var_fixed v) vs1"
proof (induction vs arbitrary: vs1)
  case Nil
  then show ?case by simp
next
  case (Cons p vs)
  obtain i v where p: "p = (i, v)" by (cases p)
  from Cons.prems show ?case
    unfolding p
    by (auto split: if_splits sum.splits dest: Cons.IH)
qed

lemma fixed_status_Cons:
  "fixed_status ((k, b) # blk) = flags_of k (state_vars b) @ fixed_status blk"
  by (simp add: fixed_status_def)

lemma fixed_status_Nil: "fixed_status [] = []"
  by (simp add: fixed_status_def)

lemma flags_of_keys: "map fst (flags_of k vs) = map (Pair k) (map fst vs)"
  by (simp add: flags_of_def case_prod_unfold)

lemma flags_of_all_fixed:
  "list_all (\<lambda>(i, v). var_fixed v) vs \<Longrightarrow> list_all snd (flags_of k vs)"
  by (simp add: flags_of_def list_all_iff case_prod_unfold)

lemma fix_state_vars_result:
  "fix_state_vars lib blk args = Inr (fl, blk1) \<Longrightarrow>
     fl = fixed_status blk
     \<and> map fst blk1 = map fst blk
     \<and> map fst (fixed_status blk1) = map fst (fixed_status blk)
     \<and> list_all snd (fixed_status blk1)"
proof (induction blk arbitrary: fl blk1)
  case Nil
  then show ?case by (simp add: fixed_status_Nil)
next
  case (Cons p blk)
  obtain k b where p: "p = (k, b)" by (cases p)
  from Cons.prems obtain vs fl0 blk0 where
    vs: "fix_vars (fix_value lib args) (state_vars b) = Inr vs"
    and rec: "fix_state_vars lib blk args = Inr (fl0, blk0)"
    and fl: "fl = flags_of k (state_vars b) @ fl0"
    and blk1: "blk1 = (k, b\<lparr>state_vars := vs\<rparr>) # blk0"
    unfolding p by (auto split: sum.splits)
  from Cons.IH [OF rec] fix_vars_result [OF vs] show ?case
    unfolding p fl blk1
    by (simp add: fixed_status_Cons flags_of_keys flags_of_all_fixed)
qed

lemma fixed_status_load_solution: "fixed_status (load_solution sol blk) = fixed_status blk"
  by (simp add: load_solution_def fixed_status_def case_prod_unfold comp_def)

lemma revert_vars_result:
  assumes "\<forall>i \<in> fst ` set vs. map_of fl (k, i) \<noteq> None"
  shows "\<exists>vs1. revert_vars fl k vs = Inr vs1
           \<and> flags_of k vs1 = map (\<lambda>(key, f). (key, f \<and> the (map_of fl key))) (flags_of k vs)"
  using assms
proof (induction vs)
  case Nil
  then show ?case by (simp add: flags_of_def)
next
  case (Cons p vs)
  obtain i v where p: "p = (i, v)" by (cases p)
  have "map_of fl (k, i) \<noteq> None"
    using Cons.prems unfolding p by simp
  then obtain w where w: "map_of fl (k, i) = Some w"
    by blast
  have tail: "\<forall>j \<in> fst ` set vs. map_of fl (k, j) \<noteq> None"
    using Cons.prems by simp
  from Cons.IH [OF tail] obtain vs1 where
    r: "revert_vars fl k vs = Inr vs1" and
    f: "flags_of k vs1 = map (\<lambda>(key, f). (key, f \<and> the (map_of fl key))) (flags_of k vs)"
    by blast
  have "revert_vars fl k (p # vs)
          = Inr ((i, if w then v else v\<lparr>var_fixed := False\<rparr>) # vs1)"
    unfolding p by (simp add: w r)
  moreover have "flags_of k ((i, if w then v else v\<lparr>var_fixed := False\<rparr>) # vs1)
          = map (\<lambda>(key, f). (key, f \<and> the (map_of fl key))) (flags_of k (p # vs))"
    unfolding p using f w by (simp add: flags_of_def)
  ultimately show ?case by blast
qed

lemma revert_state_vars_result:
  assumes "\<forall>key \<in> set (map fst (fixed_status blk)). map_of fl key \<noteq> None"
  shows "\<exists>blk1. revert_state_vars blk fl = Inr blk1
           \<and> map fst blk1 = map fst blk
           \<and> map (\<lambda>(k, b). properties b) blk1 = map (\<lambda>(k, b). properties b) blk
           \<and> fixed_status blk1
               = map (\<lambda>(key, f). (key, f \<and> the (map_of fl key))) (fixed_status blk)"
  using assms
proof (induction blk)
  case Nil
  then show ?case by (simp add: fixed_status_Nil)
next
  case (Cons p blk)
  obtain k b where p: "p = (k, b)" by (cases p)
  have keys: "set (map fst (fixed_status (p # blk)))
                = Pair k ` fst ` set (state_vars b) \<union> set (map fst (fixed_status blk))"
    unfolding p by (simp add: fixed_status_Cons flags_of_keys image_image)
  have "\<forall>i \<in> fst ` set (state_vars b). map_of fl (k, i) \<noteq> None"
    using Cons.prems unfolding keys by blast
  from revert_vars_result [OF this] obtain vs1 where
    r: "revert_vars fl k (state_vars b) = Inr vs1" and
    f: "flags_of k vs1
          = map (\<lambda>(key, f). (key, f \<and> the (map_of fl key))) (flags_of k (state_vars b))"
    by blast
  have "\<forall>key \<in> set (map fst (fixed_status blk)). map_of fl key \<noteq> None"
    using Cons.prems unfolding keys by blast
  from Cons.IH [OF this] obtain blk1 where
    r1: "revert_state_vars blk fl = Inr blk1" and
    k1: "map fst blk1 = map fst blk" and
    p1: "map (\<lambda>(k, b). properties b) blk1 = map (\<lambda>(k, b). properties b) blk" and
    f1: "fixed_status blk1
          = map (\<lambda>(key, f). (key, f \<and> the (map_of fl key))) (fixed_status blk)"
    by blast
  have "revert_state_vars (p # blk) fl = Inr ((k, b\<lparr>state_vars := vs1\<rparr>) # blk1)"
    unfolding p by (simp add: r r1)
  moreover have "fixed_status ((k, b\<lparr>state_vars := vs1\<rparr>) # blk1)
      = map (\<lambda>(key, f). (key, f \<and> the (map_of fl key))) (fixed_status (p # blk))"
    unfolding p by (simp add: fixed_status_Cons f f1)
  moreover have "map fst ((k, b\<lparr>state_vars := vs1\<rparr>) # blk1) = map fst (p # blk)"
    unfolding p by (simp add: k1)
  moreover have "map (\<lambda>(k, b). properties b) ((k, b\<lparr>state_vars := vs1\<rparr>) # blk1)
      = map (\<lambda>(k, b). properties b) (p # blk)"
    unfolding p by (simp add: p1)
  ultimately show ?case by blast
qed

lemma restore_flags:
  assumes "distinct (map fst fl)" and "map fst cur = map fst fl" and "list_all snd cur"
  shows "map (\<lambda>(key, f). (key, f \<and> the (map_of fl key))) cur = fl"
  using assms
proof (induction fl arbitrary: cur)
  case Nil
  then show ?case by simp
next
  case (Cons p fl)
  obtain key f where p: "p = (key, f)" by (cases p)
  from Cons.prems obtain c cs where cur: "cur = (key, c) # cs"
    unfolding p by (cases cur) auto
  have c: "c" using Cons.prems(3) unfolding cur by simp
  have notin: "key \<notin> fst ` set cs"
    using Cons.prems(1,2) unfolding p cur by (metis distinct.simps(2) list.inject list.simps(9) set_map fst_conv)
  have "map (\<lambda>(key', f'). (key', f' \<and> the (map_of ((key, f) # fl) key'))) cs
          = map (\<lambda>(key', f'). (key', f' \<and> the (map_of fl key'))) cs"
    using notin by (induction cs) auto
  moreover have "map (\<lambda>(key', f'). (key', f' \<and> the (map_of fl key'))) cs = fl"
    using Cons.IH [of cs] Cons.prems unfolding p cur by simp
  ultimately show ?case
    unfolding p cur using c by simp
qed


lemma solve_properties_status:
  "solve_properties lib blk1 = Inr blk2 \<Longrightarrow> fixed_status blk2 = fixed_status blk1"
  unfolding solve_properties_def Let_def
  by (auto split: if_splits prod.splits simp: fixed_status_load_solution)

lemma initialize_Inr_cases:
  assumes "initialize lib blk args svf hs = Inr (r, blk3)"
  obtains fl blk1 blk2 where
    "fix_state_vars lib blk args = Inr (fl, blk1)"
    "first_nonzero_dof lib blk1 = None"
    "fixed_status blk2 = fixed_status blk1"
    "svf \<Longrightarrow> r = None \<and> blk3 = blk2"
    "\<not> svf \<Longrightarrow> hs \<Longrightarrow> r = Some fl \<and> blk3 = blk2"
    "\<not> svf \<Longrightarrow> \<not> hs \<Longrightarrow> r = None \<and> release_state blk2 (Some fl) = Inr blk3"
proof -
  from assms obtain fl blk1 where
    f: "fix_state_vars lib blk args = Inr (fl, blk1)"
    unfolding initialize_def by (auto split: sum.splits)
  from assms f have d: "first_nonzero_dof lib blk1 = None"
    unfolding initialize_def by (auto split: option.splits)
  from assms f d obtain blk2 where s2: "solve_properties lib blk1 = Inr blk2"
    unfolding initialize_def by (auto split: sum.splits)
  note st = solve_properties_status [OF s2]
  from assms f d s2 have
    "svf \<Longrightarrow> r = None \<and> blk3 = blk2"
    "\<not> svf \<Longrightarrow> hs \<Longrightarrow> r = Some fl \<and> blk3 = blk2"
    "\<not> svf \<Longrightarrow> \<not> hs \<Longrightarrow> r = None \<and> release_state blk2 (Some fl) = Inr blk3"
    unfolding initialize_def
    by (auto split: sum.splits)
  with f d st show ?thesis using that by blast
qed

lemma release_after_fix:
  assumes wf: "wf_state_block blk"
    and keys: "map fst (fixed_status blk2) = map fst (fixed_status blk)"
    and fixed: "list_all snd (fixed_status blk2)"
  shows "\<exists>blk3. release_state blk2 (Some (fixed_status blk)) = Inr blk3
           \<and> fixed_status blk3 = fixed_status blk"
proof -
  have dist: "distinct (map fst (fixed_status blk))"
    using wf by (simp add: wf_state_block_def)
  have "\<forall>key \<in> set (map fst (fixed_status blk2)). map_of (fixed_status blk) key \<noteq> None"
    unfolding keys by (simp add: map_of_eq_None_iff)
  from revert_state_vars_result [OF this] obtain blk3 where
    r: "revert_state_vars blk2 (fixed_status blk) = Inr blk3" and
    f: "fixed_status blk3
          = map (\<lambda>(key, f). (key, f \<and> the (map_of (fixed_status blk) key))) (fixed_status blk2)"
    by blast
  from restore_flags [OF dist keys fixed] f have "fixed_status blk3 = fixed_status blk"
    by simp
  with r show ?thesis by (simp add: release_state_def)
qed

text \<open>
  Claim C10 (holding and releasing state). For a block with distinct state variables,
  and with \<open>state_vars_fixed\<close> false: when \<open>initialize\<close> returns with \<open>hold_state\<close>
  true, it returns the flags, which record the fixed status every state variable had
  before the call, and every state variable is fixed; passing those flags to
  \<open>release_state\<close> succeeds and gives every state variable its earlier status, so
  exactly the variables that \<open>initialize\<close> fixed are unfixed. When it returns with
  \<open>hold_state\<close> false, it returns \<open>None\<close> and every state variable has its earlier
  status. With \<open>state_vars_fixed\<close> true it returns \<open>None\<close> whatever \<open>hold_state\<close>
  is. \<open>release_state\<close> with no flags returns the block as it is.
\<close>

theorem initialize_hold_and_release:
  assumes "wf_state_block blk"
  shows "(\<forall>r blk1. initialize lib blk args False True = Inr (r, blk1) \<longrightarrow>
            r = Some (fixed_status blk)
            \<and> list_all snd (fixed_status blk1)
            \<and> map fst (fixed_status blk1) = map fst (fixed_status blk)
            \<and> (\<exists>blk2. release_state blk1 r = Inr blk2
                        \<and> fixed_status blk2 = fixed_status blk))
       \<and> (\<forall>r blk1. initialize lib blk args False False = Inr (r, blk1) \<longrightarrow>
            r = None \<and> fixed_status blk1 = fixed_status blk)
       \<and> (\<forall>hs r blk1. initialize lib blk args True hs = Inr (r, blk1) \<longrightarrow> r = None)
       \<and> release_state blk None = Inr blk"
proof (intro conjI allI impI)
  fix r blk3
  assume "initialize lib blk args False True = Inr (r, blk3)"
  then obtain fl blk1 where
    f: "fix_state_vars lib blk args = Inr (fl, blk1)" and
    st: "fixed_status blk3 = fixed_status blk1" and r: "r = Some fl"
    by (elim initialize_Inr_cases) auto
  note fr = fix_state_vars_result [OF f]
  show "r = Some (fixed_status blk)" using r fr by simp
  show "list_all snd (fixed_status blk3)" using st fr by simp
  show k: "map fst (fixed_status blk3) = map fst (fixed_status blk)" using st fr by simp
  show "\<exists>blk2. release_state blk3 r = Inr blk2 \<and> fixed_status blk2 = fixed_status blk"
    using release_after_fix [OF assms k] st fr r by simp
next
  fix r blk3
  assume "initialize lib blk args False False = Inr (r, blk3)"
  then obtain fl blk1 blk2 where
    f: "fix_state_vars lib blk args = Inr (fl, blk1)" and
    st: "fixed_status blk2 = fixed_status blk1" and
    r: "r = None" "release_state blk2 (Some fl) = Inr blk3"
    by (elim initialize_Inr_cases) auto
  note fr = fix_state_vars_result [OF f]
  have "map fst (fixed_status blk2) = map fst (fixed_status blk)"
    and "list_all snd (fixed_status blk2)"
    using st fr by simp_all
  from release_after_fix [OF assms this] r fr
  show "r = None" and "fixed_status blk3 = fixed_status blk" by simp_all
next
  fix hs r blk3
  assume "initialize lib blk args True hs = Inr (r, blk3)"
  then show "r = None" by (elim initialize_Inr_cases) auto
next
  show "release_state blk None = Inr blk" by (simp add: release_state_def)
qed

lemma example_fix:
  "fix_state_vars example_lib example_block ()
     = Inr (fixed_status example_block, example_block_fixed)"
  by (simp add: example_lib_def example_block_def example_block_fixed_def
      example_state_vars_def fixed_status_def flags_of_def)

lemma example_init_hold:
  "initialize example_lib example_block () False True
     = Inr (Some (fixed_status example_block), example_block_fixed)"
  by (simp add: initialize_def example_fix)
     (simp add: first_nonzero_dof_def solve_properties_def example_lib_def
        example_block_fixed_def example_state_vars_def count_unfixed_def)

lemma example_init_release:
  "initialize example_lib example_block () False False = Inr (None, example_block)"
  by (simp add: initialize_def example_fix)
     (simp add: first_nonzero_dof_def solve_properties_def example_lib_def release_state_def
        example_block_fixed_def example_block_def example_state_vars_def count_unfixed_def
        fixed_status_def flags_of_def)

theorem initialize_hold_and_release_witness:
  "wf_state_block example_block
   \<and> initialize example_lib example_block () False True
       = Inr (Some (fixed_status example_block), example_block_fixed)
   \<and> list_all snd (fixed_status example_block_fixed)
   \<and> \<not> list_all snd (fixed_status example_block)
   \<and> (\<exists>blk2. release_state example_block_fixed (Some (fixed_status example_block)) = Inr blk2
               \<and> fixed_status blk2 = fixed_status example_block)
   \<and> initialize example_lib example_block () False False = Inr (None, example_block)"
proof -
  have wf: "wf_state_block example_block"
    by (simp add: wf_state_block_def fixed_status_def flags_of_def example_block_def
        example_state_vars_def)
  have nf: "\<not> list_all snd (fixed_status example_block)"
    by (simp add: fixed_status_def flags_of_def example_block_def example_state_vars_def)
  from initialize_hold_and_release [OF wf, of example_lib "()"] example_init_hold
  have "list_all snd (fixed_status example_block_fixed)
      \<and> (\<exists>blk2. release_state example_block_fixed (Some (fixed_status example_block)) = Inr blk2
               \<and> fixed_status blk2 = fixed_status example_block)"
    by blast
  with wf nf example_init_hold example_init_release show ?thesis by blast
qed

text \<open>
  With \<open>state_vars_fixed\<close> true, as for a block whose state variables are already
  fixed, \<open>initialize\<close> returns \<open>None\<close> although \<open>hold_state\<close> is true.
\<close>

theorem initialize_state_vars_fixed_returns_None:
  "initialize example_lib example_block_fixed () True True = Inr (None, example_block_fixed)"
  by (simp add: initialize_def first_nonzero_dof_def solve_properties_def
      example_lib_def example_block_fixed_def example_state_vars_def count_unfixed_def)

section \<open>Degrees of freedom before a solve\<close>

lemma bind_result_Inr:
  "bind_result r f = Inr y \<longleftrightarrow> (\<exists>x. r = Inr x \<and> f x = Inr y)"
  by (cases r) (simp_all add: bind_result_def)

lemma bind_result_simps:
  "bind_result (Inl e) f = Inl e" "bind_result (Inr x) f = f x"
  by (simp_all add: bind_result_def)

lemma first_nonzero_dof_Some: "first_nonzero_dof lib blk = Some d \<Longrightarrow> d \<noteq> 0"
proof -
  assume a: "first_nonzero_dof lib blk = Some d"
  then obtain ds where
    "filter (\<lambda>d. d \<noteq> 0) (map (\<lambda>(k, b). degrees_of_freedom lib b) blk) = d # ds"
    by (auto simp: first_nonzero_dof_def split: list.splits)
  then have "d \<in> set (filter (\<lambda>d. d \<noteq> 0) (map (\<lambda>(k, b). degrees_of_freedom lib b) blk))"
    by simp
  then show ?thesis by simp
qed

lemma first_nonzero_dof_None:
  "first_nonzero_dof lib blk = None \<longleftrightarrow>
     list_all (\<lambda>(k, b). degrees_of_freedom lib b = 0) blk"
proof -
  have "first_nonzero_dof lib blk = None \<longleftrightarrow>
          filter (\<lambda>d. d \<noteq> 0) (map (\<lambda>(k, b). degrees_of_freedom lib b) blk) = []"
    by (simp add: first_nonzero_dof_def split: list.splits)
  also have "\<dots> \<longleftrightarrow> list_all (\<lambda>(k, b). degrees_of_freedom lib b = 0) blk"
    by (auto simp: filter_empty_conv list_all_iff)
  finally show ?thesis .
qed

lemma initialize_dof_error:
  assumes "fix_state_vars lib blk args = Inr (fl, blk1)"
    and "\<not> list_all (\<lambda>(k, b). degrees_of_freedom lib b = 0) blk1"
  shows "\<exists>d. d \<noteq> 0 \<and>
           initialize lib blk args svf hs = Inl (InitializationError (DegreesOfFreedom d))"
proof -
  from assms(2) obtain d where d: "first_nonzero_dof lib blk1 = Some d"
    using first_nonzero_dof_None [of lib blk1] by (cases "first_nonzero_dof lib blk1") auto
  with assms(1) have "initialize lib blk args svf hs = Inl (InitializationError (DegreesOfFreedom d))"
    by (simp add: initialize_def)
  with first_nonzero_dof_Some [OF d] show ?thesis by blast
qed

lemma initialize_Inr_dof:
  assumes "initialize lib blk args svf hs = Inr r"
    and "fix_state_vars lib blk args = Inr (fl, blk1)"
  shows "list_all (\<lambda>(k, b). degrees_of_freedom lib b = 0) blk1"
proof -
  obtain r1 r2 where "r = (r1, r2)" by (cases r)
  with assms(1) have "initialize lib blk args svf hs = Inr (r1, r2)" by simp
  then obtain fl' blk1' where "fix_state_vars lib blk args = Inr (fl', blk1')"
    "first_nonzero_dof lib blk1' = None"
    by (elim initialize_Inr_cases)
  with assms(2) show ?thesis by (simp add: first_nonzero_dof_None)
qed

lemma md_assert:
  assumes "md_before_final_solve env Qin Cin wr = Inr m"
    and "md_degrees_of_freedom env (md_fs m) \<noteq> 0"
  shows "build_and_run_md_system env Qin Cin wr = Inl AssertionError"
  using assms by (simp add: build_and_run_md_system_def bind_result_simps)

lemma md_final_solve:
  assumes "build_and_run_md_system env Qin Cin wr = Inr m"
  shows "\<exists>m0. md_before_final_solve env Qin Cin wr = Inr m0
            \<and> md_degrees_of_freedom env (md_fs m0) = 0
            \<and> solve (md_solver env) (md_fs m0) True = Inr (md_fs m)
            \<and> m = m0\<lparr>md_fs := md_fs m\<rparr>"
  using assms
  by (auto simp: build_and_run_md_system_def bind_result_Inr split: if_splits)

text \<open>
  Claim C7 (zero degrees of freedom before a square solve). \<open>initialize\<close> of the FO draw
  solution state block raises an \<open>InitializationError\<close> reporting nonzero degrees of
  freedom whenever, after the state variables are fixed, an element of the block does
  not have zero degrees of freedom, whatever \<open>state_vars_fixed\<close> and \<open>hold_state\<close> are;
  so when it returns, every element had zero degrees of freedom. In
  \<open>build_and_run_md_system\<close> the assertion fails when the model that reaches it does
  not have zero degrees of freedom, and when the function returns, its final solve was
  run on a model with zero degrees of freedom.
\<close>

theorem zero_degrees_of_freedom_required:
  "(\<forall>fl blk1. fix_state_vars lib blk args = Inr (fl, blk1)
        \<and> \<not> list_all (\<lambda>(k, b). degrees_of_freedom lib b = 0) blk1
      \<longrightarrow> (\<exists>d. d \<noteq> 0 \<and> initialize lib blk args state_vars_fixed hold_state
                          = Inl (InitializationError (DegreesOfFreedom d))))
   \<and> (\<forall>r fl blk1. initialize lib blk args state_vars_fixed hold_state = Inr r
        \<and> fix_state_vars lib blk args = Inr (fl, blk1)
      \<longrightarrow> list_all (\<lambda>(k, b). degrees_of_freedom lib b = 0) blk1)
   \<and> (\<forall>m. md_before_final_solve env Qin Cin water_recovery = Inr m
        \<and> md_degrees_of_freedom env (md_fs m) \<noteq> 0
      \<longrightarrow> build_and_run_md_system env Qin Cin water_recovery = Inl AssertionError)
   \<and> (\<forall>m. build_and_run_md_system env Qin Cin water_recovery = Inr m
      \<longrightarrow> (\<exists>m0. md_before_final_solve env Qin Cin water_recovery = Inr m0
                \<and> md_degrees_of_freedom env (md_fs m0) = 0
                \<and> solve (md_solver env) (md_fs m0) True = Inr (md_fs m)))"
  using initialize_dof_error [of lib blk args _ _ state_vars_fixed hold_state]
    initialize_Inr_dof [of lib blk args state_vars_fixed hold_state]
    md_assert [of env Qin Cin water_recovery]
    md_final_solve [of env Qin Cin water_recovery]
  by blast

section \<open>Properties of the treatment train\<close>

lemma md_before_final_solve_feed:
  assumes "md_before_final_solve env Qin Cin wr = Inr m"
  shows "inlet_flow_rate m = Qin * Mgallons_per_day \<and> inlet_salinity m = Cin
       \<and> (\<exists>fs0 fs1. build_md env (Qin * Mgallons_per_day) Cin wr = Inr fs0
             \<and> md_calculate_state env
                  \<lparr>va_flow_vol_phase_Liq = Qin * Mgallons_per_day,
                   va_conc_mass_phase_comp_TDS = Cin,
                   va_temperature = md_feed_temp env fs0 + 27315 / 100,
                   va_pressure = 101325\<rparr> fs0 = Inr fs1)"
  using assms
  unfolding md_before_final_solve_def build_md_system_def set_md_operating_conditions_def
    init_md_system_def md_feed_var_args_def Let_def
  by (auto simp: bind_result_Inr)

lemma build_and_run_md_system_feed:
  assumes "build_and_run_md_system env Qin Cin wr = Inr m"
  shows "inlet_flow_rate m = Qin * Mgallons_per_day \<and> inlet_salinity m = Cin
       \<and> (\<exists>fs0 fs1. build_md env (Qin * Mgallons_per_day) Cin wr = Inr fs0
             \<and> md_calculate_state env
                  \<lparr>va_flow_vol_phase_Liq = Qin * Mgallons_per_day,
                   va_conc_mass_phase_comp_TDS = Cin,
                   va_temperature = md_feed_temp env fs0 + 27315 / 100,
                   va_pressure = 101325\<rparr> fs0 = Inr fs1)"
proof -
  from md_final_solve [OF assms] obtain m0 where
    m0: "md_before_final_solve env Qin Cin wr = Inr m0" and m: "m = m0\<lparr>md_fs := md_fs m\<rparr>"
    by blast
  have "inlet_flow_rate m = inlet_flow_rate m0" "inlet_salinity m = inlet_salinity m0"
    by (subst m, simp)+
  with md_before_final_solve_feed [OF m0] show ?thesis by simp
qed

lemma build_and_run_mec_system_feed:
  assumes "build_and_run_mec_system env Qin Cin n
             \<lparr>kw_flow_mass_water = Some w, kw_flow_mass_tds = Some t\<rparr> = Inr m"
  shows "flow_mass_water m = w \<and> flow_mass_tds m = t
       \<and> (\<exists>fs0 fs1. build_mec env n = Inr fs0
             \<and> init_mec env
                  (mec_fix_feed env
                     \<lparr>mf_flow_mass_Liq_H2O = w, mf_flow_mass_Liq_NaCl = t,
                      mf_flow_mass_Sol_NaCl = 0, mf_temperature = 29815 / 100,
                      mf_pressure = 101325\<rparr> fs0) = Inr fs1)"
  using assms
  unfolding build_and_run_mec_system_def set_mec_operating_conditions_def
  by (auto simp: bind_result_Inr bind_result_simps)

lemma Mgallons_per_day_nonzero: "Mgallons_per_day \<noteq> 0"
  by (simp add: Mgallons_per_day_def)

lemma flow_mgd_roundtrip: "flow_mgd s * Mgallons_per_day = flow_vol_phase_Liq s"
  by (simp add: flow_mgd_def Mgallons_per_day_nonzero)

lemma kbhdp_zld_wiring:
  assumes "build_and_run_kbhdp_zld env kw = Inr (m1, m_md, m_mec)"
  shows "build_and_run_primary_treatment env kw = Inr m1
       \<and> inlet_flow_rate m_md = flow_vol_phase_Liq (primary_brine env m1)
       \<and> inlet_salinity m_md = conc_mass_phase_comp_TDS (primary_brine env m1)
       \<and> (\<exists>fs0 fs1. build_md env (flow_vol_phase_Liq (primary_brine env m1))
                       (conc_mass_phase_comp_TDS (primary_brine env m1)) (1 / 2) = Inr fs0
             \<and> md_calculate_state env
                  \<lparr>va_flow_vol_phase_Liq = flow_vol_phase_Liq (primary_brine env m1),
                   va_conc_mass_phase_comp_TDS =
                     conc_mass_phase_comp_TDS (primary_brine env m1),
                   va_temperature = md_feed_temp env fs0 + 27315 / 100,
                   va_pressure = 101325\<rparr> fs0 = Inr fs1)
       \<and> flow_mass_water m_mec = flow_mass_phase_comp_H2O (md_disposal env (md_fs m_md))
       \<and> flow_mass_tds m_mec = flow_mass_phase_comp_TDS (md_disposal env (md_fs m_md))
       \<and> (\<exists>fs0 fs1. build_mec env 4 = Inr fs0
             \<and> init_mec env
                  (mec_fix_feed env
                     \<lparr>mf_flow_mass_Liq_H2O =
                        flow_mass_phase_comp_H2O (md_disposal env (md_fs m_md)),
                      mf_flow_mass_Liq_NaCl =
                        flow_mass_phase_comp_TDS (md_disposal env (md_fs m_md)),
                      mf_flow_mass_Sol_NaCl = 0, mf_temperature = 29815 / 100,
                      mf_pressure = 101325\<rparr> fs0) = Inr fs1)"
proof -
  from assms have p: "build_and_run_primary_treatment env kw = Inr m1"
    and md: "build_and_run_md_system env (flow_mgd (primary_brine env m1))
               (conc_mass_phase_comp_TDS (primary_brine env m1)) (1 / 2) = Inr m_md"
    and mec: "build_and_run_mec_system env None None 4
               \<lparr>kw_flow_mass_water =
                  Some (flow_mass_phase_comp_H2O (md_disposal env (md_fs m_md))),
                kw_flow_mass_tds =
                  Some (flow_mass_phase_comp_TDS (md_disposal env (md_fs m_md)))\<rparr> = Inr m_mec"
    unfolding build_and_run_kbhdp_zld_def Let_def
    by (auto simp: bind_result_Inr)
  from build_and_run_md_system_feed [OF md] build_and_run_mec_system_feed [OF mec] p
  show ?thesis
    by (simp add: flow_mgd_roundtrip)
qed

lemma primary_arcs:
  "stream_path add_primary_connections
     [fs_feed, fs_MCAS_to_TDS_translator, fs_EC, fs_UF, fs_TDS_to_NaCl_translator, fs_pump,
      fs_RO, fs_RO_brine_to_MD_translator, fs_brine]"
  "arcs_into add_primary_connections fs_UF =
     [\<lparr>arc_name = ''EC_to_UF'', source = (fs_EC, [''product'', ''outlet'']),
       destination = (fs_UF, [''feed'', ''inlet''])\<rparr>]"
  "arcs_into add_primary_connections fs_TDS_to_NaCl_translator =
     [\<lparr>arc_name = ''UF_to_translator3'', source = (fs_UF, [''product'', ''outlet'']),
       destination = (fs_TDS_to_NaCl_translator, [''inlet''])\<rparr>]"
  "arcs_into add_primary_connections fs_pump =
     [\<lparr>arc_name = ''translator_to_pump'', source = (fs_TDS_to_NaCl_translator, [''outlet'']),
       destination = (fs_pump, [''inlet''])\<rparr>]"
  "arcs_into add_primary_connections fs_RO =
     [\<lparr>arc_name = ''pump_to_ro'', source = (fs_pump, [''outlet'']),
       destination = (fs_RO, [''feed'', ''inlet''])\<rparr>]"
  "arcs_out_of add_primary_connections (fs_RO, [''disposal'', ''outlet'']) =
     [\<lparr>arc_name = ''ro_to_brine_translator'', source = (fs_RO, [''disposal'', ''outlet'']),
       destination = (fs_RO_brine_to_MD_translator, [''inlet''])\<rparr>]"
  "arcs_into add_primary_connections fs_brine =
     [\<lparr>arc_name = ''brine_translator_to_brine'',
       source = (fs_RO_brine_to_MD_translator, [''outlet'']),
       destination = (fs_brine, [''inlet''])\<rparr>]"
  by (simp_all add: add_primary_connections_def arcs_into_def arcs_out_of_def connected_def)

lemma md_mec_arcs:
  "arcs_into build_md_system_arcs mdfs_md =
     [\<lparr>arc_name = ''feed_to_md'', source = (mdfs_feed, [''outlet'']),
       destination = (mdfs_md, [''feed'', ''inlet''])\<rparr>]"
  "arcs_into build_md_system_arcs mdfs_disposal =
     [\<lparr>arc_name = ''md_to_disposal'', source = (mdfs_md, [''concentrate'', ''outlet'']),
       destination = (mdfs_disposal, [''inlet''])\<rparr>]"
  "arcs_into build_mec_system_arcs mecfs_MEC =
     [\<lparr>arc_name = ''feed_to_unit'', source = (mecfs_feed, [''outlet'']),
       destination = (mecfs_MEC, [''unit'', ''inlet''])\<rparr>]"
  by (simp_all add: build_md_system_arcs_def build_mec_system_arcs_def arcs_into_def)

text \<open>
  Claim C5 (order of the treatment train). The arcs of the primary treatment form the
  chain feed, translator, electrocoagulation, ultrafiltration, translator, pump, reverse
  osmosis, translator, brine: the only arc into the UF block comes from the product
  outlet of EC, the RO block is fed only by the pump, the pump only by the translator
  that the UF product outlet feeds, and the only arc out of the RO disposal outlet leads
  through the brine translator to the brine block. In the MD flowsheet the feed block
  is the only one connected to the inlet of the MD unit and the disposal block is fed
  only by the concentrate outlet of the MD unit; in the MEC flowsheet the feed block is
  the only one connected to the inlet of the MEC unit. When \<open>build_and_run_kbhdp_zld\<close>
  returns, the MD flowsheet was built for the volumetric flow and the TDS concentration
  of that brine, which are the flow and concentration at which the state of its feed is
  calculated, and the feed of the MEC flowsheet was fixed at the mass flows of water and
  of TDS of the MD disposal block.
\<close>

theorem kbhdp_zld_train:
  "stream_path add_primary_connections
     [fs_feed, fs_MCAS_to_TDS_translator, fs_EC, fs_UF, fs_TDS_to_NaCl_translator, fs_pump,
      fs_RO, fs_RO_brine_to_MD_translator, fs_brine]
   \<and> arcs_into add_primary_connections fs_UF =
       [\<lparr>arc_name = ''EC_to_UF'', source = (fs_EC, [''product'', ''outlet'']),
         destination = (fs_UF, [''feed'', ''inlet''])\<rparr>]
   \<and> arcs_into add_primary_connections fs_TDS_to_NaCl_translator =
       [\<lparr>arc_name = ''UF_to_translator3'', source = (fs_UF, [''product'', ''outlet'']),
         destination = (fs_TDS_to_NaCl_translator, [''inlet''])\<rparr>]
   \<and> arcs_into add_primary_connections fs_pump =
       [\<lparr>arc_name = ''translator_to_pump'',
         source = (fs_TDS_to_NaCl_translator, [''outlet'']),
         destination = (fs_pump, [''inlet''])\<rparr>]
   \<and> arcs_into add_primary_connections fs_RO =
       [\<lparr>arc_name = ''pump_to_ro'', source = (fs_pump, [''outlet'']),
         destination = (fs_RO, [''feed'', ''inlet''])\<rparr>]
   \<and> arcs_out_of add_primary_connections (fs_RO, [''disposal'', ''outlet'']) =
       [\<lparr>arc_name = ''ro_to_brine_translator'',
         source = (fs_RO, [''disposal'', ''outlet'']),
         destination = (fs_RO_brine_to_MD_translator, [''inlet''])\<rparr>]
   \<and> arcs_into add_primary_connections fs_brine =
       [\<lparr>arc_name = ''brine_translator_to_brine'',
         source = (fs_RO_brine_to_MD_translator, [''outlet'']),
         destination = (fs_brine, [''inlet''])\<rparr>]
   \<and> arcs_into build_md_system_arcs mdfs_md =
       [\<lparr>arc_name = ''feed_to_md'', source = (mdfs_feed, [''outlet'']),
         destination = (mdfs_md, [''feed'', ''inlet''])\<rparr>]
   \<and> arcs_into build_md_system_arcs mdfs_disposal =
       [\<lparr>arc_name = ''md_to_disposal'', source = (mdfs_md, [''concentrate'', ''outlet'']),
         destination = (mdfs_disposal, [''inlet''])\<rparr>]
   \<and> arcs_into build_mec_system_arcs mecfs_MEC =
       [\<lparr>arc_name = ''feed_to_unit'', source = (mecfs_feed, [''outlet'']),
         destination = (mecfs_MEC, [''unit'', ''inlet''])\<rparr>]
   \<and> (\<forall>m1 m_md m_mec.
         build_and_run_kbhdp_zld env kw = Inr (m1, m_md, m_mec) \<longrightarrow>
           build_and_run_primary_treatment env kw = Inr m1
           \<and> inlet_flow_rate m_md = flow_vol_phase_Liq (primary_brine env m1)
           \<and> inlet_salinity m_md = conc_mass_phase_comp_TDS (primary_brine env m1)
           \<and> (\<exists>fs0 fs1.
                 build_md env (flow_vol_phase_Liq (primary_brine env m1))
                   (conc_mass_phase_comp_TDS (primary_brine env m1)) (1 / 2) = Inr fs0
                 \<and> md_calculate_state env
                      \<lparr>va_flow_vol_phase_Liq = flow_vol_phase_Liq (primary_brine env m1),
                       va_conc_mass_phase_comp_TDS =
                         conc_mass_phase_comp_TDS (primary_brine env m1),
                       va_temperature = md_feed_temp env fs0 + 27315 / 100,
                       va_pressure = 101325\<rparr> fs0 = Inr fs1)
           \<and> flow_mass_water m_mec = flow_mass_phase_comp_H2O (md_disposal env (md_fs m_md))
           \<and> flow_mass_tds m_mec = flow_mass_phase_comp_TDS (md_disposal env (md_fs m_md))
           \<and> (\<exists>fs0 fs1.
                 build_mec env 4 = Inr fs0
                 \<and> init_mec env
                      (mec_fix_feed env
                         \<lparr>mf_flow_mass_Liq_H2O =
                            flow_mass_phase_comp_H2O (md_disposal env (md_fs m_md)),
                          mf_flow_mass_Liq_NaCl =
                            flow_mass_phase_comp_TDS (md_disposal env (md_fs m_md)),
                          mf_flow_mass_Sol_NaCl = 0, mf_temperature = 29815 / 100,
                          mf_pressure = 101325\<rparr> fs0) = Inr fs1))"
proof -
  have wiring: "\<forall>m1 m_md m_mec.
         build_and_run_kbhdp_zld env kw = Inr (m1, m_md, m_mec) \<longrightarrow>
           build_and_run_primary_treatment env kw = Inr m1
           \<and> inlet_flow_rate m_md = flow_vol_phase_Liq (primary_brine env m1)
           \<and> inlet_salinity m_md = conc_mass_phase_comp_TDS (primary_brine env m1)
           \<and> (\<exists>fs0 fs1.
                 build_md env (flow_vol_phase_Liq (primary_brine env m1))
                   (conc_mass_phase_comp_TDS (primary_brine env m1)) (1 / 2) = Inr fs0
                 \<and> md_calculate_state env
                      \<lparr>va_flow_vol_phase_Liq = flow_vol_phase_Liq (primary_brine env m1),
                       va_conc_mass_phase_comp_TDS =
                         conc_mass_phase_comp_TDS (primary_brine env m1),
                       va_temperature = md_feed_temp env fs0 + 27315 / 100,
                       va_pressure = 101325\<rparr> fs0 = Inr fs1)
           \<and> flow_mass_water m_mec = flow_mass_phase_comp_H2O (md_disposal env (md_fs m_md))
           \<and> flow_mass_tds m_mec = flow_mass_phase_comp_TDS (md_disposal env (md_fs m_md))
           \<and> (\<exists>fs0 fs1.
                 build_mec env 4 = Inr fs0
                 \<and> init_mec env
                      (mec_fix_feed env
                         \<lparr>mf_flow_mass_Liq_H2O =
                            flow_mass_phase_comp_H2O (md_disposal env (md_fs m_md)),
                          mf_flow_mass_Liq_NaCl =
                            flow_mass_phase_comp_TDS (md_disposal env (md_fs m_md)),
                          mf_flow_mass_Sol_NaCl = 0, mf_temperature = 29815 / 100,
                          mf_pressure = 101325\<rparr> fs0) = Inr fs1)"
    by (intro allI impI) (rule kbhdp_zld_wiring)
  show ?thesis
    by (intro conjI primary_arcs md_mec_arcs wiring)
qed


lemma example_md_before:
  "md_before_final_solve (example_plant d) (flow_mgd example_brine) 50 (1 / 2)
     = Inr \<lparr>inlet_flow_rate = 1 / 20, inlet_salinity = 50, md_water_recovery = 1 / 2,
            md_fs = \<lparr>flow_vol_phase_Liq = 1 / 20, conc_mass_phase_comp_TDS = 50,
                     flow_mass_phase_comp_H2O = 50, flow_mass_phase_comp_TDS = 5 / 2\<rparr>\<rparr>"
  by (simp add: md_before_final_solve_def build_md_system_def set_md_operating_conditions_def
      init_md_system_def md_feed_var_args_def solve_def bind_result_simps example_plant_def
      flow_mgd_def example_brine_def Mgallons_per_day_def Let_def)

lemma example_md_run:
  "build_and_run_md_system (example_plant 0) (flow_mgd example_brine) 50 (1 / 2)
     = Inr \<lparr>inlet_flow_rate = 1 / 20, inlet_salinity = 50, md_water_recovery = 1 / 2,
            md_fs = \<lparr>flow_vol_phase_Liq = 1 / 20, conc_mass_phase_comp_TDS = 50,
                     flow_mass_phase_comp_H2O = 50, flow_mass_phase_comp_TDS = 5 / 2\<rparr>\<rparr>"
  by (simp add: build_and_run_md_system_def example_md_before bind_result_simps)
     (simp add: example_plant_def solve_def bind_result_simps)

lemma example_md_assert:
  "build_and_run_md_system (example_plant 1) (flow_mgd example_brine) 50 (1 / 2)
     = Inl AssertionError"
  by (simp add: build_and_run_md_system_def example_md_before bind_result_simps)
     (simp add: example_plant_def)

lemma example_mec_run:
  "build_and_run_mec_system (example_plant 0) None None 4
     \<lparr>kw_flow_mass_water = Some 25, kw_flow_mass_tds = Some (5 / 2)\<rparr> = Inr example_mec_model"
  by (simp add: build_and_run_mec_system_def set_mec_operating_conditions_def solve_def
      bind_result_simps example_plant_def example_mec_model_def)

lemma example_agg:
  "\<exists>b. build_agg_model (example_plant 0) example_brine example_md_model example_mec_model = Inr b"
  by (simp add: build_agg_model_def build_agg_costing_blk_def example_plant_def
      example_costing_def)

lemma example_zld_run:
  "build_and_run_kbhdp_zld (example_plant 0) ()
     = Inr (example_brine, example_md_model, example_mec_model)"
proof -
  have p: "build_and_run_primary_treatment (example_plant 0) () = Inr example_brine"
    "primary_brine (example_plant 0) example_brine = example_brine"
    by (simp_all add: example_plant_def)
  have c: "conc_mass_phase_comp_TDS example_brine = 50"
    by (simp add: example_brine_def)
  have d: "md_disposal (example_plant 0) (md_fs example_md_model)
             = \<lparr>flow_vol_phase_Liq = 1 / 40, conc_mass_phase_comp_TDS = 100,
                flow_mass_phase_comp_H2O = 25, flow_mass_phase_comp_TDS = 5 / 2\<rparr>"
    by (simp add: example_plant_def example_md_model_def)
  from example_agg obtain b where
    b: "build_agg_model (example_plant 0) example_brine example_md_model example_mec_model = Inr b"
    by blast
  show ?thesis
    unfolding build_and_run_kbhdp_zld_def Let_def
    by (simp add: p c bind_result_simps example_md_run [folded example_md_model_def] d
        example_mec_run b)
qed

theorem kbhdp_zld_train_witness:
  "build_and_run_kbhdp_zld (example_plant 0) ()
     = Inr (example_brine, example_md_model, example_mec_model)
   \<and> inlet_flow_rate example_md_model = flow_vol_phase_Liq example_brine
   \<and> inlet_salinity example_md_model = conc_mass_phase_comp_TDS example_brine
   \<and> flow_mass_water example_mec_model = 25
   \<and> flow_mass_tds example_mec_model = 5 / 2"
proof -
  from kbhdp_zld_train [of "example_plant 0" "()"] example_zld_run
  have "inlet_flow_rate example_md_model
          = flow_vol_phase_Liq (primary_brine (example_plant 0) example_brine)
      \<and> inlet_salinity example_md_model
          = conc_mass_phase_comp_TDS (primary_brine (example_plant 0) example_brine)
      \<and> flow_mass_water example_mec_model
          = flow_mass_phase_comp_H2O (md_disposal (example_plant 0) (md_fs example_md_model))
      \<and> flow_mass_tds example_mec_model
          = flow_mass_phase_comp_TDS (md_disposal (example_plant 0) (md_fs example_md_model))"
    by blast
  then show ?thesis
    using example_zld_run
    by (simp add: example_plant_def example_md_model_def)
qed


section \<open>Evaluating the degree-of-freedom checks\<close>

lemma example_dof_fix:
  "fix_state_vars example_lib example_block_dof ()
     = Inr (fixed_status example_block_dof,
            [(0, \<lparr>state_vars = example_state_vars True True, properties = 1\<rparr>)])"
  by (simp add: example_lib_def example_block_dof_def
      example_state_vars_def fixed_status_def flags_of_def)

theorem zero_degrees_of_freedom_required_witness:
  "(\<exists>fl blk1. fix_state_vars example_lib example_block_dof () = Inr (fl, blk1)
       \<and> \<not> list_all (\<lambda>(k, b). degrees_of_freedom example_lib b = 0) blk1)
   \<and> (\<exists>d. d \<noteq> 0 \<and> initialize example_lib example_block_dof () False True
                       = Inl (InitializationError (DegreesOfFreedom d)))
   \<and> initialize example_lib example_block_dof () False True
       = Inl (InitializationError (DegreesOfFreedom 1))
   \<and> (\<exists>m. md_before_final_solve (example_plant 1) (flow_mgd example_brine) 50 (1 / 2) = Inr m
          \<and> md_degrees_of_freedom (example_plant 1) (md_fs m) \<noteq> 0)
   \<and> build_and_run_md_system (example_plant 1) (flow_mgd example_brine) 50 (1 / 2)
       = Inl AssertionError
   \<and> (\<exists>m. build_and_run_md_system (example_plant 0) (flow_mgd example_brine) 50 (1 / 2) = Inr m)"
proof -
  have nz: "\<not> list_all (\<lambda>(k, b). degrees_of_freedom example_lib b = 0)
              [(0, \<lparr>state_vars = example_state_vars True True, properties = 1\<rparr>)]"
    by (simp add: example_lib_def count_unfixed_def example_state_vars_def)
  have md: "md_degrees_of_freedom (example_plant 1)
              (md_fs \<lparr>inlet_flow_rate = 1 / 20, inlet_salinity = 50, md_water_recovery = 1 / 2,
                      md_fs = \<lparr>flow_vol_phase_Liq = 1 / 20, conc_mass_phase_comp_TDS = 50,
                               flow_mass_phase_comp_H2O = 50,
                               flow_mass_phase_comp_TDS = 5 / 2\<rparr>\<rparr>) \<noteq> 0"
    by (simp add: example_plant_def)
  note zd = zero_degrees_of_freedom_required
    [of example_lib example_block_dof "()" False True "example_plant 1"
        "flow_mgd example_brine" 50 "1 / 2"]
  from zd example_dof_fix nz
  have e: "\<exists>d. d \<noteq> 0 \<and> initialize example_lib example_block_dof () False True
                       = Inl (InitializationError (DegreesOfFreedom d))"
    by blast
  from zd example_md_before [of 1] md
  have a: "build_and_run_md_system (example_plant 1) (flow_mgd example_brine) 50 (1 / 2)
             = Inl AssertionError"
    by blast
  have i: "initialize example_lib example_block_dof () False True
             = Inl (InitializationError (DegreesOfFreedom 1))"
    by (simp add: initialize_def example_dof_fix)
       (simp add: first_nonzero_dof_def example_lib_def count_unfixed_def
          example_state_vars_def)
  from example_dof_fix nz e i example_md_before [of 1] md a example_md_run
  show ?thesis by blast
qed

section \<open>Properties of the system costing\<close>

lemma check_common_params_Inr:
  "check_common_params cps t e = Inr u \<longleftrightarrow> (\<forall>cp \<in> set cps. t cp = e cp)"
  by (induction cps) auto

lemma check_common_params_Inl:
  "check_common_params cps t e = Inl err \<Longrightarrow>
     \<exists>cp \<in> set cps. t cp \<noteq> e cp \<and> err = ValueError (common_param_message cp)"
  by (induction cps) (auto split: if_splits)

text \<open>
  Claim C1 (shared costing parameters). Constructing the system costing block raises a
  \<open>ValueError\<close> naming a shared parameter whenever some shared parameter has
  different values on the treatment and the energy costing block; the parameter named
  is one that differs. When the construction succeeds, then after \<open>cost_process\<close>
  every shared parameter has on the system block the value it has on the treatment
  block and on the energy block.
\<close>

theorem common_params_equivalent:
  "(\<forall>t e cp. treatment_costing fs = Some t \<and> energy_costing fs = Some e
        \<and> cp \<in> set common \<and> t cp \<noteq> e cp
      \<longrightarrow> (\<exists>cp' \<in> set common. t cp' \<noteq> e cp'
             \<and> REFLOSystemCosting common fs = Inl (ValueError (common_param_message cp'))))
   \<and> (\<forall>sys. REFLOSystemCosting common fs = Inr sys
      \<longrightarrow> (\<exists>t e. treatment_costing fs = Some t \<and> energy_costing fs = Some e
             \<and> (\<forall>cp \<in> set common.
                   sys_params (cost_process sys) cp = Some (t cp)
                   \<and> sys_params (cost_process sys) cp = Some (e cp))))"
proof (intro conjI allI impI)
  fix t e cp
  assume a: "treatment_costing fs = Some t \<and> energy_costing fs = Some e
        \<and> cp \<in> set common \<and> t cp \<noteq> e cp"
  then have "\<not> (\<forall>cp \<in> set common. t cp = e cp)" by blast
  then obtain err where err: "check_common_params common t e = Inl err"
    using check_common_params_Inr [of common t e]
    by (cases "check_common_params common t e") auto
  from check_common_params_Inl [OF err] obtain cp' where
    "cp' \<in> set common" "t cp' \<noteq> e cp'" "err = ValueError (common_param_message cp')"
    by blast
  with a err show "\<exists>cp' \<in> set common. t cp' \<noteq> e cp'
             \<and> REFLOSystemCosting common fs = Inl (ValueError (common_param_message cp'))"
    by (auto simp: REFLOSystemCosting_def bind_result_def)
next
  fix sys
  assume a: "REFLOSystemCosting common fs = Inr sys"
  then obtain t e where te: "treatment_costing fs = Some t" "energy_costing fs = Some e"
    by (auto simp: REFLOSystemCosting_def split: option.splits)
  with a have chk: "check_common_params common t e = Inr ()"
    and sys: "sys = \<lparr>sys_params = (\<lambda>cp. if cp \<in> set common then Some (t cp) else None),
                     sys_processed = False\<rparr>"
    by (auto simp: REFLOSystemCosting_def bind_result_def split: sum.splits)
  from chk have "\<forall>cp \<in> set common. t cp = e cp"
    by (simp add: check_common_params_Inr)
  with te sys show "\<exists>t e. treatment_costing fs = Some t \<and> energy_costing fs = Some e
             \<and> (\<forall>cp \<in> set common.
                   sys_params (cost_process sys) cp = Some (t cp)
                   \<and> sys_params (cost_process sys) cp = Some (e cp))"
    by (auto simp: cost_process_def)
qed


theorem common_params_equivalent_witness:
  "REFLOSystemCosting test_common_params
     \<lparr>treatment_costing = Some default_costing,
      energy_costing = Some (fix_param default_costing ''electricity_cost'' (Number (2 / 100)))\<rparr>
     = Inl (ValueError (common_param_message ''electricity_cost''))
   \<and> REFLOSystemCosting test_common_params
     \<lparr>treatment_costing = Some (fix_param default_costing ''base_currency'' (Unit_of ''USD_2011'')),
      energy_costing = Some default_costing\<rparr>
     = Inl (ValueError (common_param_message ''base_currency''))
   \<and> (\<exists>sys. REFLOSystemCosting test_common_params
         \<lparr>treatment_costing =
            Some (fix_param default_costing ''electricity_cost'' (Number (2 / 100))),
          energy_costing =
            Some (fix_param default_costing ''electricity_cost'' (Number (2 / 100)))\<rparr> = Inr sys
        \<and> sys_params (cost_process sys) ''electricity_cost'' = Some (Number (2 / 100))
        \<and> sys_params (cost_process sys) ''base_currency'' = Some (Unit_of ''USD_2021''))"
proof -
  let ?t = "fix_param default_costing ''electricity_cost'' (Number (2 / 100))"
  let ?fs = "\<lparr>treatment_costing = Some ?t, energy_costing = Some ?t\<rparr>"
  have m1: "REFLOSystemCosting test_common_params
     \<lparr>treatment_costing = Some default_costing, energy_costing = Some ?t\<rparr>
     = Inl (ValueError (common_param_message ''electricity_cost''))"
    by (simp add: REFLOSystemCosting_def test_common_params_def fix_param_def
        default_costing_def bind_result_def)
  have m2: "REFLOSystemCosting test_common_params
     \<lparr>treatment_costing = Some (fix_param default_costing ''base_currency'' (Unit_of ''USD_2011'')),
      energy_costing = Some default_costing\<rparr>
     = Inl (ValueError (common_param_message ''base_currency''))"
    by (simp add: REFLOSystemCosting_def test_common_params_def fix_param_def
        default_costing_def bind_result_def)
  obtain sys where sys: "REFLOSystemCosting test_common_params ?fs = Inr sys"
    by (simp add: REFLOSystemCosting_def test_common_params_def bind_result_def)
  from common_params_equivalent [of ?fs test_common_params] sys
  have "\<forall>cp \<in> set test_common_params. sys_params (cost_process sys) cp = Some (?t cp)"
    by auto
  then have "sys_params (cost_process sys) ''electricity_cost'' = Some (Number (2 / 100))"
    "sys_params (cost_process sys) ''base_currency'' = Some (Unit_of ''USD_2021'')"
    by (simp_all add: test_common_params_def fix_param_def default_costing_def)
  with m1 m2 sys show ?thesis by blast
qed

text \<open>
  Claim C3 (missing energy costing block). On a flowsheet that has a treatment costing
  block and no energy costing block, constructing the system costing block raises a
  \<open>ValueError\<close> saying that the package requires an \<open>EnergyCosting\<close> block but one
  was not found.
\<close>

theorem no_energy_block:
  assumes "treatment_costing fs = Some t" and "energy_costing fs = None"
  shows "REFLOSystemCosting common fs =
           Inl (ValueError
             ''REFLOSystemCosting package requires a EnergyCosting block but one was not found.'')"
  using assms by (simp add: REFLOSystemCosting_def missing_block_message_def)


theorem no_energy_block_witness:
  "treatment_costing \<lparr>treatment_costing = Some default_costing, energy_costing = None\<rparr>
     = Some default_costing
   \<and> energy_costing \<lparr>treatment_costing = Some default_costing, energy_costing = None\<rparr> = None
   \<and> REFLOSystemCosting test_common_params
       \<lparr>treatment_costing = Some default_costing, energy_costing = None\<rparr> =
         Inl (ValueError
           ''REFLOSystemCosting package requires a EnergyCosting block but one was not found.'')"
  using no_energy_block [of "\<lparr>treatment_costing = Some default_costing, energy_costing = None\<rparr>"
      default_costing test_common_params]
  by simp



end
